theory Spec2Isabelle
  imports Main "HOL-Library.Word"
begin

section \<open>Go values\<close>

text \<open>
  A Go call either returns or panics (an index or slice out of range, a nil pointer
  dereference). A pointer is \<open>nil\<close> or points to a value; the pointee is kept by value,
  which is enough here because no two pointers of the modelled code alias.
\<close>

datatype 'a outcome = Panic | Returns 'a

datatype 'a ptr = NilPtr | Ptr 'a

datatype error = Error string

type_synonym bytes = string

type_synonym addr = nat

text \<open>
  \<open>xs[i]\<close> on an array and \<open>s[lo:hi]\<close> on a string: both panic out of range.
\<close>

definition go_index :: "'a list \<Rightarrow> int \<Rightarrow> 'a outcome" where
  "go_index xs i = (if 0 \<le> i \<and> i < int (length xs) then Returns (xs ! nat i) else Panic)"

definition go_slice :: "'a list \<Rightarrow> nat \<Rightarrow> nat \<Rightarrow> 'a list outcome" where
  "go_slice s lo hi =
     (if lo \<le> hi \<and> hi \<le> length s then Returns (take (hi - lo) (drop lo s)) else Panic)"

text \<open>\<open>fmt.Sprintf("%d", i)\<close>: the decimal digits of a signed integer.\<close>

fun decimal :: "nat \<Rightarrow> string" where
  "decimal n =
     (if n < 10 then [''0123456789'' ! n]
      else decimal (n div 10) @ [''0123456789'' ! (n mod 10)])"

declare decimal.simps [simp del]

definition Sprintf_d :: "int \<Rightarrow> string" where
  "Sprintf_d i = (if i < 0 then CHR ''-'' # decimal (nat (- i)) else decimal (nat i))"

section \<open>Package pkg: \<open>ErrorCode.String\<close>\<close>

text \<open>
  \<open>ErrorCode\<close> is a signed integer type (the generated code tests \<open>i < 0\<close>); its
  declaration is not part of the sources at hand, so Go's \<open>int\<close> on a 64-bit platform is
  taken: arithmetic wraps, comparisons read the word as two's complement.

  The repository holds two generated copies of the method, of two versions of the
  package. They share the body and differ in the tables: \<open>pkg/errorcode_string.go\<close>
  has sixteen names; the second copy, which stands beside the persistence code, has
  seventeen (\<open>ErrInvalidLoginKey\<close> comes after \<open>ErrInvalidUsername\<close>).
\<close>

type_synonym ErrorCode = "64 word"

definition String_body :: "string \<Rightarrow> nat list \<Rightarrow> ErrorCode \<Rightarrow> string outcome" where
  "String_body name index i0 =
     (let i = i0 - 1 in
      if sint i < 0 \<or> sint (word_of_nat (length index - 1) :: ErrorCode) \<le> sint i
      then Returns (''ErrorCode('' @ Sprintf_d (sint (i + 1)) @ '')'')
      else (case go_index index (sint i) of
              Panic \<Rightarrow> Panic
            | Returns lo \<Rightarrow>
                (case go_index index (sint (i + 1)) of
                   Panic \<Rightarrow> Panic
                 | Returns hi \<Rightarrow> go_slice name lo hi)))"

text \<open>The tables of \<open>pkg/errorcode_string.go\<close>.\<close>

definition ErrorCode_name :: string where
  "ErrorCode_name = ''ErrBadRequestJSONErrDatabaseErrorErrInvalidUsernameErrNotRegisteredErrNotVerifiedErrAlreadyRegisteredErrRegistrationInProgressErrSendingEmailErrRoundNotFoundErrInvalidUserLongTermKeyErrInvalidSignatureErrInvalidTokenErrExpiredTokenErrUnauthorizedErrBadCommitmentErrUnknown''"

definition ErrorCode_index :: "nat list" where
  "ErrorCode_index =
     [0, 17, 33, 51, 67, 81, 101, 126, 141, 157, 182, 201, 216, 231, 246, 262, 272]"

definition ErrorCode_String :: "ErrorCode \<Rightarrow> string outcome" where
  "ErrorCode_String = String_body ErrorCode_name ErrorCode_index"

text \<open>The tables of the second copy (seventeen names).\<close>

definition ErrorCode_name_2 :: string where
  "ErrorCode_name_2 = ''ErrBadRequestJSONErrDatabaseErrorErrInvalidUsernameErrInvalidLoginKeyErrNotRegisteredErrNotVerifiedErrAlreadyRegisteredErrRegistrationInProgressErrSendingEmailErrRoundNotFoundErrInvalidUserLongTermKeyErrInvalidSignatureErrInvalidTokenErrExpiredTokenErrUnauthorizedErrBadCommitmentErrUnknown''"

definition ErrorCode_index_2 :: "nat list" where
  "ErrorCode_index_2 =
     [0, 17, 33, 51, 69, 85, 99, 119, 144, 159, 175, 200, 219, 234, 249, 264, 280, 290]"

definition ErrorCode_String_2 :: "ErrorCode \<Rightarrow> string outcome" where
  "ErrorCode_String_2 = String_body ErrorCode_name_2 ErrorCode_index_2"

text \<open>The seventeen error kinds, as the specification lists them.\<close>

definition error_kinds :: "string list" where
  "error_kinds =
     [''BadRequestJSON'', ''DatabaseError'', ''InvalidUsername'', ''InvalidLoginKey'',
      ''NotRegistered'', ''NotVerified'', ''AlreadyRegistered'', ''RegistrationInProgress'',
      ''SendingEmail'', ''RoundNotFound'', ''InvalidUserLongTermKey'', ''InvalidSignature'',
      ''InvalidToken'', ''ExpiredToken'', ''Unauthorized'', ''BadCommitment'', ''Unknown'']"

section \<open>Package alpenhorn: persisted state\<close>

text \<open>
  \<open>persistedFriend\<close> and \<open>persistedState\<close> are the two structs of the client blob. The
  request types \<open>IncomingFriendRequest\<close>, \<open>OutgoingFriendRequest\<close> and
  \<open>sentFriendRequest\<close> are declared outside the sources at hand: a request is its
  exported fields, of a type left open, and the unexported back-reference \<open>client\<close>
  that \<open>loadStateLocked\<close> assigns. \<open>config.SignedConfig\<close> and the keywheel are left
  open as well. A Go map is a partial function; its values here are pointers, which a
  decoded blob can leave \<open>nil\<close>. Slices are lists (a nil slice and an empty one are
  not told apart).
\<close>

record persistedFriend =
  Username :: string
  LongTermKey :: bytes
  ExtraData :: bytes

record 'x request =
  exported :: 'x
  client :: "addr ptr"

record ('cfg, 'ifr, 'ofr, 'sfr) persistedState =
  Username :: string
  LongTermPublicKey :: bytes
  LongTermPrivateKey :: bytes
  PKGLoginKey :: bytes
  AddFriendConfig :: "'cfg ptr"
  DialingConfig :: "'cfg ptr"
  IncomingFriendRequests :: "'ifr request ptr list"
  OutgoingFriendRequests :: "'ofr request ptr list"
  SentFriendRequests :: "'sfr request ptr list"
  Friends :: "string \<rightharpoonup> persistedFriend ptr"

record Friend =
  Username :: string
  LongTermKey :: bytes
  extraData :: bytes
  client :: "addr ptr"

text \<open>
  The fields of \<open>Client\<close> that the persistence code and the test's client literal
  name. \<open>CoordinatorAddress\<close>, \<open>CoordinatorKey\<close> and \<open>Handler\<close> are never
  written to a blob.
\<close>

record ('cfg, 'ifr, 'ofr, 'sfr, 'w) Client =
  Username :: string
  LongTermPublicKey :: bytes
  LongTermPrivateKey :: bytes
  PKGLoginKey :: bytes
  CoordinatorAddress :: string
  CoordinatorKey :: bytes
  Handler :: "addr ptr"
  ClientPersistPath :: string
  KeywheelPersistPath :: string
  wheel :: 'w
  addFriendConfig :: "'cfg ptr"
  addFriendConfigHash :: string
  dialingConfig :: "'cfg ptr"
  dialingConfigHash :: string
  incomingFriendRequests :: "'ifr request ptr list"
  outgoingFriendRequests :: "'ofr request ptr list"
  sentFriendRequests :: "'sfr request ptr list"
  friends :: "string \<rightharpoonup> Friend ptr"

subsection \<open>The file system and the libraries the code calls\<close>

text \<open>
  A disk maps a path to a file (contents and permission bits) and logs every call of
  \<open>WriteFileAtomic\<close>, so that an attempted write is visible even when it fails.
\<close>

record stored_file =
  contents :: bytes
  perm :: nat

record disk =
  files :: "string \<rightharpoonup> stored_file"
  writes :: "(string \<times> bytes \<times> nat) list"

text \<open>
  What the code calls and the sources at hand do not define: \<open>encoding/json\<close> on a
  \<open>persistedState\<close>, the keywheel's binary encoding and its zero value,
  \<open>SignedConfig.Hash\<close> (which may panic, for instance on a nil receiver), and the
  input/output errors of the environment, by path.
\<close>

record ('cfg, 'ifr, 'ofr, 'sfr, 'w) deps =
  json_MarshalIndent ::
    "('cfg, 'ifr, 'ofr, 'sfr) persistedState \<Rightarrow> string \<Rightarrow> string \<Rightarrow> error + bytes"
  json_Unmarshal :: "bytes \<Rightarrow> error + ('cfg, 'ifr, 'ofr, 'sfr) persistedState"
  Wheel_zero :: 'w
  Wheel_MarshalBinary :: "'w \<Rightarrow> error + bytes"
  Wheel_UnmarshalBinary :: "'w \<Rightarrow> bytes \<Rightarrow> error + 'w"
  SignedConfig_Hash :: "'cfg ptr \<Rightarrow> string outcome"
  read_fault :: "string \<Rightarrow> error option"
  write_fault :: "string \<Rightarrow> error option"

text \<open>\<open>ioutil.ReadFile\<close>: the contents of the file, or an error.\<close>

definition ReadFile ::
  "('cfg, 'ifr, 'ofr, 'sfr, 'w) deps \<Rightarrow> disk \<Rightarrow> string \<Rightarrow> error + bytes" where
  "ReadFile deps d path =
     (case read_fault deps path of
        Some err \<Rightarrow> Inl err
      | None \<Rightarrow>
          (case files d path of
             None \<Rightarrow> Inl (Error ''no such file or directory'')
           | Some f \<Rightarrow> Inr (contents f)))"

text \<open>
  Modelled from the spec: \<open>ioutil2.WriteFileAtomic\<close> is not part of the sources at
  hand. The specification has it write a temporary file and rename it, so a write either
  fails and leaves the files as they were, or puts the whole data at the path with the
  given mode. The temporary file itself is not represented.
\<close>

definition WriteFileAtomic ::
  "('cfg, 'ifr, 'ofr, 'sfr, 'w) deps \<Rightarrow> disk \<Rightarrow> string \<Rightarrow> bytes \<Rightarrow> nat \<Rightarrow> error option \<times> disk" where
  "WriteFileAtomic deps d path data mode =
     (let d' = d\<lparr>writes := writes d @ [(path, data, mode)]\<rparr> in
      case write_fault deps path of
        Some err \<Rightarrow> (Some err, d')
      | None \<Rightarrow> (None, d'\<lparr>files := (files d')(path \<mapsto> \<lparr>contents = data, perm = mode\<rparr>)\<rparr>))"

text \<open>The octal literal \<open>0600\<close>.\<close>

definition mode_0600 :: nat where
  "mode_0600 = 6 * 8 ^ 2 + 0 * 8 + 0"

subsection \<open>Loading\<close>

text \<open>
  \<open>for _, req := range reqs { req.client = c }\<close>: the assignment dereferences
  \<open>req\<close> and panics on a nil entry.
\<close>

fun set_client :: "addr \<Rightarrow> 'x request ptr list \<Rightarrow> 'x request ptr list outcome" where
  "set_client c [] = Returns []"
| "set_client c (NilPtr # reqs) = Panic"
| "set_client c (Ptr req # reqs) =
     (case set_client c reqs of
        Panic \<Rightarrow> Panic
      | Returns reqs' \<Rightarrow> Returns (Ptr (req\<lparr>request.client := Ptr c\<rparr>) # reqs'))"

text \<open>
  The body of the loop over \<open>st.Friends\<close>. It reads \<open>friend.Username\<close>, so the loop
  panics when some entry is nil; the second equation is never reached.
\<close>

fun load_Friend :: "addr \<Rightarrow> persistedFriend ptr \<Rightarrow> Friend ptr" where
  "load_Friend c (Ptr friend) =
     Ptr \<lparr>Friend.Username = persistedFriend.Username friend,
          LongTermKey = persistedFriend.LongTermKey friend,
          extraData = ExtraData friend,
          client = Ptr c\<rparr>"
| "load_Friend c NilPtr = NilPtr"

definition load_Friends ::
  "addr \<Rightarrow> (string \<rightharpoonup> persistedFriend ptr) \<Rightarrow> (string \<rightharpoonup> Friend ptr) outcome" where
  "load_Friends c m =
     (if NilPtr \<in> ran m then Panic else Returns (map_option (load_Friend c) \<circ> m))"

text \<open>
  \<open>loadStateLocked\<close>; \<open>c_addr\<close> is the pointer \<open>c\<close>, \<open>c\<close> the client it points to.
\<close>

definition loadStateLocked ::
  "('cfg, 'ifr, 'ofr, 'sfr, 'w) deps \<Rightarrow> addr \<Rightarrow> ('cfg, 'ifr, 'ofr, 'sfr, 'w) Client \<Rightarrow>
   ('cfg, 'ifr, 'ofr, 'sfr) persistedState \<Rightarrow> ('cfg, 'ifr, 'ofr, 'sfr, 'w) Client outcome" where
  "loadStateLocked deps c_addr c st =
     (case SignedConfig_Hash deps (AddFriendConfig st) of
        Panic \<Rightarrow> Panic
      | Returns addFriendHash \<Rightarrow>
     (case SignedConfig_Hash deps (DialingConfig st) of
        Panic \<Rightarrow> Panic
      | Returns dialingHash \<Rightarrow>
     (case set_client c_addr (IncomingFriendRequests st) of
        Panic \<Rightarrow> Panic
      | Returns incoming \<Rightarrow>
     (case set_client c_addr (OutgoingFriendRequests st) of
        Panic \<Rightarrow> Panic
      | Returns outgoing \<Rightarrow>
     (case set_client c_addr (SentFriendRequests st) of
        Panic \<Rightarrow> Panic
      | Returns sent \<Rightarrow>
     (case load_Friends c_addr (Friends st) of
        Panic \<Rightarrow> Panic
      | Returns fs \<Rightarrow>
          Returns (c\<lparr>Client.Username := persistedState.Username st,
                     Client.LongTermPublicKey := persistedState.LongTermPublicKey st,
                     Client.LongTermPrivateKey := persistedState.LongTermPrivateKey st,
                     Client.PKGLoginKey := persistedState.PKGLoginKey st,
                     addFriendConfig := AddFriendConfig st,
                     addFriendConfigHash := addFriendHash,
                     dialingConfig := DialingConfig st,
                     dialingConfigHash := dialingHash,
                     incomingFriendRequests := incoming,
                     outgoingFriendRequests := outgoing,
                     sentFriendRequests := sent,
                     friends := fs\<rparr>)))))))"

text \<open>
  The composite literal \<open>&Client{ClientPersistPath: ..., KeywheelPersistPath: ...}\<close>:
  every other field has its zero value.
\<close>

definition new_Client ::
  "('cfg, 'ifr, 'ofr, 'sfr, 'w) deps \<Rightarrow> string \<Rightarrow> string \<Rightarrow> ('cfg, 'ifr, 'ofr, 'sfr, 'w) Client" where
  "new_Client deps clientPersistPath keywheelPersistPath =
     \<lparr>Client.Username = [], LongTermPublicKey = [], LongTermPrivateKey = [], PKGLoginKey = [],
      CoordinatorAddress = [], CoordinatorKey = [], Handler = NilPtr,
      ClientPersistPath = clientPersistPath, KeywheelPersistPath = keywheelPersistPath,
      wheel = Wheel_zero deps,
      addFriendConfig = NilPtr, addFriendConfigHash = [],
      dialingConfig = NilPtr, dialingConfigHash = [],
      incomingFriendRequests = [], outgoingFriendRequests = [], sentFriendRequests = [],
      friends = Map.empty\<rparr>"

text \<open>
  \<open>LoadClient\<close>. Go returns the pair \<open>(nil, err)\<close> or \<open>(c, nil)\<close>: \<open>Inl err\<close> is the
  first, \<open>Inr (c_addr, c)\<close> the second, with \<open>c_addr\<close> the address the allocation of
  the client yields and \<open>c\<close> the client stored there.
\<close>

definition LoadClient ::
  "('cfg, 'ifr, 'ofr, 'sfr, 'w) deps \<Rightarrow> addr \<Rightarrow> string \<Rightarrow> string \<Rightarrow> disk \<Rightarrow>
   (error + addr \<times> ('cfg, 'ifr, 'ofr, 'sfr, 'w) Client) outcome" where
  "LoadClient deps c_addr clientPersistPath keywheelPersistPath d =
     (case ReadFile deps d clientPersistPath of
        Inl err \<Rightarrow> Returns (Inl err)
      | Inr clientData \<Rightarrow>
     (case json_Unmarshal deps clientData of
        Inl err \<Rightarrow> Returns (Inl err)
      | Inr st \<Rightarrow>
     (case ReadFile deps d keywheelPersistPath of
        Inl err \<Rightarrow> Returns (Inl err)
      | Inr keywheelData \<Rightarrow>
          (let c = new_Client deps clientPersistPath keywheelPersistPath in
           case Wheel_UnmarshalBinary deps (wheel c) keywheelData of
             Inl err \<Rightarrow> Returns (Inl err)
           | Inr w \<Rightarrow>
               (case loadStateLocked deps c_addr (c\<lparr>wheel := w\<rparr>) st of
                  Panic \<Rightarrow> Panic
                | Returns c' \<Rightarrow> Returns (Inr (c_addr, c')))))))"

subsection \<open>Persisting\<close>

text \<open>
  The body of the loop over \<open>c.friends\<close>; it reads \<open>friend.Username\<close>, so the loop
  panics when some entry is nil and the second equation is never reached.
\<close>

fun persist_Friend :: "Friend ptr \<Rightarrow> persistedFriend ptr" where
  "persist_Friend (Ptr friend) =
     Ptr \<lparr>persistedFriend.Username = Friend.Username friend,
          LongTermKey = Friend.LongTermKey friend,
          ExtraData = extraData friend\<rparr>"
| "persist_Friend NilPtr = NilPtr"

definition persist_Friends ::
  "(string \<rightharpoonup> Friend ptr) \<Rightarrow> (string \<rightharpoonup> persistedFriend ptr) outcome" where
  "persist_Friends m =
     (if NilPtr \<in> ran m then Panic else Returns (map_option persist_Friend \<circ> m))"

text \<open>
  \<open>encoding/json\<close> reads and writes exported fields only. The state it is given shares
  the client's request objects, whose \<open>client\<close> field is unexported: what the encoder
  sees is the state with that field at its zero value.
\<close>

fun exported_only :: "'x request ptr \<Rightarrow> 'x request ptr" where
  "exported_only NilPtr = NilPtr"
| "exported_only (Ptr req) = Ptr (req\<lparr>request.client := NilPtr\<rparr>)"

definition json_view ::
  "('cfg, 'ifr, 'ofr, 'sfr) persistedState \<Rightarrow> ('cfg, 'ifr, 'ofr, 'sfr) persistedState" where
  "json_view st =
     st\<lparr>IncomingFriendRequests := map exported_only (IncomingFriendRequests st),
        OutgoingFriendRequests := map exported_only (OutgoingFriendRequests st),
        SentFriendRequests := map exported_only (SentFriendRequests st)\<rparr>"

definition persistClientLocked ::
  "('cfg, 'ifr, 'ofr, 'sfr, 'w) deps \<Rightarrow> ('cfg, 'ifr, 'ofr, 'sfr, 'w) Client \<Rightarrow> disk \<Rightarrow>
   (error option \<times> disk) outcome" where
  "persistClientLocked deps c d =
     (if ClientPersistPath c = [] then Returns (None, d)
      else
        (case persist_Friends (friends c) of
           Panic \<Rightarrow> Panic
         | Returns fs \<Rightarrow>
             (let st = \<lparr>persistedState.Username = Client.Username c,
                        LongTermPublicKey = Client.LongTermPublicKey c,
                        LongTermPrivateKey = Client.LongTermPrivateKey c,
                        PKGLoginKey = Client.PKGLoginKey c,
                        AddFriendConfig = addFriendConfig c,
                        DialingConfig = dialingConfig c,
                        IncomingFriendRequests = incomingFriendRequests c,
                        OutgoingFriendRequests = outgoingFriendRequests c,
                        SentFriendRequests = sentFriendRequests c,
                        Friends = fs\<rparr>
              in case json_MarshalIndent deps (json_view st) [] ''  '' of
                   Inl err \<Rightarrow> Returns (Some err, d)
                 | Inr data \<Rightarrow>
                     Returns (WriteFileAtomic deps d (ClientPersistPath c) data mode_0600))))"

definition persistKeywheelLocked ::
  "('cfg, 'ifr, 'ofr, 'sfr, 'w) deps \<Rightarrow> ('cfg, 'ifr, 'ofr, 'sfr, 'w) Client \<Rightarrow> disk \<Rightarrow>
   (error option \<times> disk) outcome" where
  "persistKeywheelLocked deps c d =
     (if KeywheelPersistPath c = [] then Returns (None, d)
      else
        (case Wheel_MarshalBinary deps (wheel c) of
           Inl err \<Rightarrow> Returns (Some err, d)
         | Inr data \<Rightarrow>
             Returns (WriteFileAtomic deps d (KeywheelPersistPath c) data mode_0600)))"

text \<open>
  \<open>persistLocked\<close>: \<open>err\<close> is the client blob's error, \<open>e\<close> the keywheel's, and \<open>e\<close>
  is returned only when \<open>err\<close> is nil.
\<close>

definition persistLocked ::
  "('cfg, 'ifr, 'ofr, 'sfr, 'w) deps \<Rightarrow> ('cfg, 'ifr, 'ofr, 'sfr, 'w) Client \<Rightarrow> disk \<Rightarrow>
   (error option \<times> disk) outcome" where
  "persistLocked deps c d =
     (case persistClientLocked deps c d of
        Panic \<Rightarrow> Panic
      | Returns (err, d1) \<Rightarrow>
          (case persistKeywheelLocked deps c d1 of
             Panic \<Rightarrow> Panic
           | Returns (e, d2) \<Rightarrow> Returns (if err = None then e else err, d2)))"

subsection \<open>The state a client is persisted as\<close>

text \<open>
  The \<open>persistedState\<close> that \<open>persistClientLocked\<close> builds from a client, written out
  field by field, for stating what is marshalled and what a load must give back.
\<close>

definition blob_state ::
  "('cfg, 'ifr, 'ofr, 'sfr, 'w) Client \<Rightarrow> ('cfg, 'ifr, 'ofr, 'sfr) persistedState" where
  "blob_state c =
     \<lparr>persistedState.Username = Client.Username c,
      LongTermPublicKey = Client.LongTermPublicKey c,
      LongTermPrivateKey = Client.LongTermPrivateKey c,
      PKGLoginKey = Client.PKGLoginKey c,
      AddFriendConfig = addFriendConfig c,
      DialingConfig = dialingConfig c,
      IncomingFriendRequests = incomingFriendRequests c,
      OutgoingFriendRequests = outgoingFriendRequests c,
      SentFriendRequests = sentFriendRequests c,
      Friends = (\<lambda>username.
        case friends c username of
          None \<Rightarrow> None
        | Some NilPtr \<Rightarrow> Some NilPtr
        | Some (Ptr friend) \<Rightarrow>
            Some (Ptr \<lparr>persistedFriend.Username = Friend.Username friend,
                       LongTermKey = Friend.LongTermKey friend,
                       ExtraData = extraData friend\<rparr>))\<rparr>"

text \<open>
  What holds of a client that the package has built: no nil request or friend, and each
  cached hash is the hash of the stored configuration. \<open>loadStateLocked\<close> establishes
  it (lemma \<open>loadStateLocked_well_formed\<close>).
\<close>

definition well_formed ::
  "('cfg, 'ifr, 'ofr, 'sfr, 'w) deps \<Rightarrow> ('cfg, 'ifr, 'ofr, 'sfr, 'w) Client \<Rightarrow> bool" where
  "well_formed deps c =
     (SignedConfig_Hash deps (addFriendConfig c) = Returns (addFriendConfigHash c) \<and>
      SignedConfig_Hash deps (dialingConfig c) = Returns (dialingConfigHash c) \<and>
      NilPtr \<notin> set (incomingFriendRequests c) \<and>
      NilPtr \<notin> set (outgoingFriendRequests c) \<and>
      NilPtr \<notin> set (sentFriendRequests c) \<and>
      NilPtr \<notin> ran (friends c))"

text \<open>The client with every back-reference replaced by the pointer \<open>p\<close>.\<close>

fun request_with_client :: "addr ptr \<Rightarrow> 'x request ptr \<Rightarrow> 'x request ptr" where
  "request_with_client p NilPtr = NilPtr"
| "request_with_client p (Ptr req) = Ptr (req\<lparr>request.client := p\<rparr>)"

fun friend_with_client :: "addr ptr \<Rightarrow> Friend ptr \<Rightarrow> Friend ptr" where
  "friend_with_client p NilPtr = NilPtr"
| "friend_with_client p (Ptr friend) = Ptr (friend\<lparr>Friend.client := p\<rparr>)"

definition with_backrefs ::
  "addr ptr \<Rightarrow> ('cfg, 'ifr, 'ofr, 'sfr, 'w) Client \<Rightarrow> ('cfg, 'ifr, 'ofr, 'sfr, 'w) Client" where
  "with_backrefs p c =
     c\<lparr>incomingFriendRequests := map (request_with_client p) (incomingFriendRequests c),
       outgoingFriendRequests := map (request_with_client p) (outgoingFriendRequests c),
       sentFriendRequests := map (request_with_client p) (sentFriendRequests c),
       friends := map_option (friend_with_client p) \<circ> friends c\<rparr>"

section \<open>The configuration chain\<close>

text \<open>
  Modelled from the spec: package \<open>config\<close> is not part of the sources at hand, and the
  persistence code only stores a \<open>SignedConfig\<close> and calls its \<open>Hash\<close>. Section 3 of
  the specification gives a configuration its service, its two timestamps, its servers
  and the back-pointer \<open>PrevConfigHash\<close> (empty when zero); section 4.3 has it signed
  by guardians. \<open>Servers\<close> stands for the PKG servers, the mix-net servers and the CDN
  endpoint together.
\<close>

record SignedConfig =
  Service :: string
  Created :: int
  Expires :: int
  PrevConfigHash :: bytes
  Servers :: string
  Guardians :: "bytes list"
  Signatures :: "(bytes \<times> bytes) list"

text \<open>
  Modelled from the spec: the five verification rules of section 4.3, by which a
  configuration is checked against the stored head of its chain (\<open>None\<close> when the chain
  is being bootstrapped). The signature scheme and the hash are parameters:
  \<open>verify_sig key cfg sig\<close> says whether \<open>sig\<close> is the signature of \<open>cfg\<close> under
  \<open>key\<close>. The guardians are those the stored head lists, and those of the configuration
  itself at a bootstrap.
\<close>

datatype config_rule = Signature | ServiceMatch | HashChain | CreatedLater | ExpiresLater

definition spec_signed ::
  "(bytes \<Rightarrow> SignedConfig \<Rightarrow> bytes \<Rightarrow> bool) \<Rightarrow> SignedConfig option \<Rightarrow> SignedConfig \<Rightarrow> bool" where
  "spec_signed verify_sig head cfg =
     list_all
       (\<lambda>guardian.
          case map_of (Signatures cfg) guardian of
            None \<Rightarrow> False
          | Some sig \<Rightarrow> verify_sig guardian cfg sig)
       (case head of None \<Rightarrow> Guardians cfg | Some h \<Rightarrow> Guardians h)"

definition spec_hash_chain ::
  "(SignedConfig \<Rightarrow> bytes) \<Rightarrow> SignedConfig option \<Rightarrow> SignedConfig \<Rightarrow> bool" where
  "spec_hash_chain hash head cfg =
     (if PrevConfigHash cfg \<noteq> []
      then (case head of None \<Rightarrow> False | Some h \<Rightarrow> PrevConfigHash cfg = hash h)
      else head = None)"

text \<open>
  The rules in order; the result names the first rule that fails, \<open>None\<close> when the
  configuration verifies.
\<close>

definition spec_Verify ::
  "(bytes \<Rightarrow> SignedConfig \<Rightarrow> bytes \<Rightarrow> bool) \<Rightarrow> (SignedConfig \<Rightarrow> bytes) \<Rightarrow> string \<Rightarrow>
   SignedConfig option \<Rightarrow> SignedConfig \<Rightarrow> config_rule option" where
  "spec_Verify verify_sig hash service head cfg =
     (if \<not> spec_signed verify_sig head cfg then Some Signature
      else if Service cfg \<noteq> service then Some ServiceMatch
      else if \<not> spec_hash_chain hash head cfg then Some HashChain
      else if (case head of None \<Rightarrow> False | Some h \<Rightarrow> Created cfg \<le> Created h)
      then Some CreatedLater
      else if Expires cfg \<le> Created cfg then Some ExpiresLater
      else None)"

section \<open>A concrete client and environment\<close>

text \<open>
  An instance to run the definitions on. Configurations, request contents and the
  keywheel are strings. The keywheel encoding is a version byte followed by the state.
  The two JSON functions stand in for \<open>encoding/json\<close> on the three documents used
  below: the blob of the client \<open>bob\<close>, a blob whose friend map has a null entry, and
  anything else, which does not parse.
\<close>

definition bob :: "(string, string, string, string, string) Client" where
  "bob =
     \<lparr>Client.Username = ''bob@example.org'',
      LongTermPublicKey = ''bob-public'',
      LongTermPrivateKey = ''bob-private'',
      PKGLoginKey = ''bob-login'',
      CoordinatorAddress = ''localhost:8000'',
      CoordinatorKey = ''coordinator-public'',
      Handler = Ptr 3,
      ClientPersistPath = ''bob-client'',
      KeywheelPersistPath = ''bob-keywheel'',
      wheel = ''alice@example.org:round 12'',
      addFriendConfig = Ptr ''addfriend config'',
      addFriendConfigHash = ''hash of addfriend config'',
      dialingConfig = Ptr ''dialing config'',
      dialingConfigHash = ''hash of dialing config'',
      incomingFriendRequests = [Ptr \<lparr>exported = ''from carol'', client = Ptr 7\<rparr>],
      outgoingFriendRequests = [],
      sentFriendRequests = [Ptr \<lparr>exported = ''to dave, round 11'', client = Ptr 7\<rparr>],
      friends = [''alice@example.org'' \<mapsto>
        Ptr \<lparr>Friend.Username = ''alice@example.org'', LongTermKey = ''alice-public'',
             extraData = ''met at work'', client = Ptr 7\<rparr>]\<rparr>"

definition null_friend_state :: "(string, string, string, string) persistedState" where
  "null_friend_state =
     \<lparr>persistedState.Username = ''mallory@example.org'',
      LongTermPublicKey = [], LongTermPrivateKey = [], PKGLoginKey = [],
      AddFriendConfig = Ptr ''addfriend config'',
      DialingConfig = Ptr ''dialing config'',
      IncomingFriendRequests = [], OutgoingFriendRequests = [], SentFriendRequests = [],
      Friends = [''x'' \<mapsto> NilPtr]\<rparr>"

definition ex_deps :: "(string, string, string, string, string) deps" where
  "ex_deps =
     \<lparr>json_MarshalIndent =
        (\<lambda>st prefix indent.
           Inr (prefix @ ''{'' @ indent @ persistedState.Username st @ ''}'')),
      json_Unmarshal =
        (\<lambda>data.
           if data = ''{  bob@example.org}'' then Inr (json_view (blob_state bob))
           else if data = ''{  mallory@example.org}'' then Inr null_friend_state
           else Inl (Error ''invalid character'')),
      Wheel_zero = [],
      Wheel_MarshalBinary = (\<lambda>w. Inr (CHR 0x01 # w)),
      Wheel_UnmarshalBinary =
        (\<lambda>w data.
           case data of
             [] \<Rightarrow> Inl (Error ''short keywheel data'')
           | version # rest \<Rightarrow>
               if version = CHR 0x01 then Inr rest
               else Inl (Error ''unknown keywheel version'')),
      SignedConfig_Hash =
        (\<lambda>p. case p of NilPtr \<Rightarrow> Panic | Ptr config \<Rightarrow> Returns (''hash of '' @ config)),
      read_fault = (\<lambda>path. None),
      write_fault = (\<lambda>path. None)\<rparr>"

text \<open>The same environment with every write to the client's path failing.\<close>

definition ex_deps_failing :: "(string, string, string, string, string) deps" where
  "ex_deps_failing =
     ex_deps\<lparr>write_fault :=
       (\<lambda>path. if path = ''bob-client'' then Some (Error ''disk full'') else None)\<rparr>"

definition empty_disk :: disk where
  "empty_disk = \<lparr>files = Map.empty, writes = []\<rparr>"

text \<open>A disk holding the blob with the null friend and a keywheel blob.\<close>

definition null_friend_disk :: disk where
  "null_friend_disk =
     \<lparr>files = [''mallory-client'' \<mapsto> \<lparr>contents = ''{  mallory@example.org}'', perm = mode_0600\<rparr>,
               ''mallory-keywheel'' \<mapsto> \<lparr>contents = [CHR 0x01], perm = mode_0600\<rparr>],
      writes = []\<rparr>"

text \<open>The disk after \<open>bob\<close> has been persisted.\<close>

definition bob_disk :: disk where
  "bob_disk =
     \<lparr>files = [''bob-client'' \<mapsto> \<lparr>contents = ''{  bob@example.org}'', perm = mode_0600\<rparr>,
               ''bob-keywheel'' \<mapsto>
                 \<lparr>contents = CHR 0x01 # ''alice@example.org:round 12'', perm = mode_0600\<rparr>],
      writes = [(''bob-client'', ''{  bob@example.org}'', mode_0600),
                (''bob-keywheel'', CHR 0x01 # ''alice@example.org:round 12'', mode_0600)]\<rparr>"

subsection \<open>A client with a forged configuration\<close>

text \<open>
  A second instance, in which configurations are \<open>SignedConfig\<close> records. The
  signature of a configuration under a key names the key and the signed content, and the
  hash of a configuration is a digest of the same content. The dialing configuration is
  the bootstrap of its chain, signed by its guardian. The add-friend configuration is
  forged: its guardian has not signed it (the only signature is under another key), and
  its \<open>PrevConfigHash\<close> is the hash of no configuration.
\<close>

definition ex_content :: "SignedConfig \<Rightarrow> string" where
  "ex_content cfg = Service cfg @ '' / '' @ Servers cfg"

definition ex_verify_sig :: "bytes \<Rightarrow> SignedConfig \<Rightarrow> bytes \<Rightarrow> bool" where
  "ex_verify_sig key cfg sig = (sig = key @ '' signs '' @ ex_content cfg)"

definition ex_Hash :: "SignedConfig \<Rightarrow> bytes" where
  "ex_Hash cfg = ''hash of '' @ ex_content cfg"

definition dialing_config :: SignedConfig where
  "dialing_config =
     \<lparr>Service = ''Dialing'', Created = 100, Expires = 200, PrevConfigHash = [],
      Servers = ''mixnet, cdn'', Guardians = [''guardian-key''],
      Signatures = [(''guardian-key'', ''guardian-key signs Dialing / mixnet, cdn'')]\<rparr>"

definition forged_config :: SignedConfig where
  "forged_config =
     \<lparr>Service = ''AddFriend'', Created = 100, Expires = 200, PrevConfigHash = ''forged'',
      Servers = ''pkg of mallory'', Guardians = [''guardian-key''],
      Signatures = [(''mallory-key'', ''mallory-key signs AddFriend / pkg of mallory'')]\<rparr>"

definition eve :: "(SignedConfig, string, string, string, string) Client" where
  "eve =
     \<lparr>Client.Username = ''eve@example.org'',
      LongTermPublicKey = ''eve-public'',
      LongTermPrivateKey = ''eve-private'',
      PKGLoginKey = ''eve-login'',
      CoordinatorAddress = ''localhost:8000'',
      CoordinatorKey = ''coordinator-public'',
      Handler = Ptr 3,
      ClientPersistPath = ''eve-client'',
      KeywheelPersistPath = ''eve-keywheel'',
      wheel = ''bob@example.org:round 3'',
      addFriendConfig = Ptr forged_config,
      addFriendConfigHash = ex_Hash forged_config,
      dialingConfig = Ptr dialing_config,
      dialingConfigHash = ex_Hash dialing_config,
      incomingFriendRequests = [],
      outgoingFriendRequests = [Ptr \<lparr>exported = ''to bob'', client = Ptr 5\<rparr>],
      sentFriendRequests = [],
      friends = Map.empty\<rparr>"

text \<open>
  The JSON functions of this instance write the user name and the two configurations,
  and read back the one document used below, the blob of \<open>eve\<close>.
\<close>

fun ex_config_json :: "SignedConfig ptr \<Rightarrow> string" where
  "ex_config_json NilPtr = ''null''"
| "ex_config_json (Ptr cfg) =
     ''{'' @ Service cfg @ '', '' @ Sprintf_d (Created cfg) @ '', '' @ Sprintf_d (Expires cfg) @
     '', '' @ PrevConfigHash cfg @ '', '' @ Servers cfg @
     '', ['' @ concat (map (\<lambda>guardian. guardian @ '';'') (Guardians cfg)) @
     ''], ['' @ concat (map (\<lambda>(key, sig). key @ '': '' @ sig @ '';'') (Signatures cfg)) @ '']}''"

definition eve_blob :: bytes where
  "eve_blob = ''{  eve@example.org,  {AddFriend, 100, 200, forged, pkg of mallory, [guardian-key;], [mallory-key: mallory-key signs AddFriend / pkg of mallory;]},  {Dialing, 100, 200, , mixnet, cdn, [guardian-key;], [guardian-key: guardian-key signs Dialing / mixnet, cdn;]}}''"

definition ex_deps_signed :: "(SignedConfig, string, string, string, string) deps" where
  "ex_deps_signed =
     \<lparr>json_MarshalIndent =
        (\<lambda>st prefix indent.
           Inr (prefix @ ''{'' @ indent @ persistedState.Username st @
                '','' @ indent @ ex_config_json (AddFriendConfig st) @
                '','' @ indent @ ex_config_json (DialingConfig st) @ ''}'')),
      json_Unmarshal =
        (\<lambda>data.
           if data = eve_blob then Inr (json_view (blob_state eve))
           else Inl (Error ''invalid character'')),
      Wheel_zero = [],
      Wheel_MarshalBinary = (\<lambda>w. Inr (CHR 0x01 # w)),
      Wheel_UnmarshalBinary =
        (\<lambda>w data.
           case data of
             [] \<Rightarrow> Inl (Error ''short keywheel data'')
           | version # rest \<Rightarrow>
               if version = CHR 0x01 then Inr rest
               else Inl (Error ''unknown keywheel version'')),
      SignedConfig_Hash =
        (\<lambda>p. case p of NilPtr \<Rightarrow> Panic | Ptr cfg \<Rightarrow> Returns (ex_Hash cfg)),
      read_fault = (\<lambda>path. None),
      write_fault = (\<lambda>path. None)\<rparr>"

text \<open>The disk after \<open>eve\<close> has been persisted.\<close>

definition eve_disk :: disk where
  "eve_disk =
     \<lparr>files = [''eve-client'' \<mapsto> \<lparr>contents = eve_blob, perm = mode_0600\<rparr>,
               ''eve-keywheel'' \<mapsto>
                 \<lparr>contents = CHR 0x01 # ''bob@example.org:round 3'', perm = mode_0600\<rparr>],
      writes = [(''eve-client'', eve_blob, mode_0600),
                (''eve-keywheel'', CHR 0x01 # ''bob@example.org:round 3'', mode_0600)]\<rparr>"

section \<open>Properties of \<open>ErrorCode.String\<close>\<close>

lemmas String_defs =
  ErrorCode_String_def ErrorCode_String_2_def String_body_def go_index_def go_slice_def
  Sprintf_d_def

lemma word_of_sint: "(word_of_int (sint v) :: ErrorCode) = v"
  by simp

lemma sint_pred:
  "sint (v - 1 :: ErrorCode) = (if sint v = - (2 ^ 63) then 2 ^ 63 - 1 else sint v - 1)"
proof (cases "sint v = - (2 ^ 63)")
  case True
  then have "v = word_of_int (- (2 ^ 63))"
    using word_of_sint [of v] by simp
  then show ?thesis by simp
next
  case False
  have "- (2 ^ 63) \<le> sint v" "sint v < 2 ^ 63"
    using sint_ge [of v] sint_lt [of v] by simp_all
  with False have "- (2 ^ 63) \<le> sint v - 1" "sint v - 1 < 2 ^ 63"
    by simp_all
  then have "signed_take_bit 63 (sint v - 1) = sint v - 1"
    by (simp add: signed_take_bit_int_eq_self)
  with False show ?thesis
    by (simp add: sint_word_ariths)
qed

lemma code_cases_16:
  assumes "1 \<le> sint (v :: ErrorCode)" "sint v \<le> 16"
  shows "v \<in> {1, 2, 3, 4, 5, 6, 7, 8, 9, 10, 11, 12, 13, 14, 15, 16}"
proof -
  obtain k where k: "1 \<le> k" "k \<le> 16" "v = word_of_int k"
    using assms word_of_sint [of v] by metis
  from k(1,2) have "k \<in> {1, 2, 3, 4, 5, 6, 7, 8, 9, 10, 11, 12, 13, 14, 15, 16}"
    by simp arith
  with k(3) show ?thesis by auto
qed

lemma String_fallback:
  assumes "sint (v :: ErrorCode) < 1 \<or> 16 < sint v"
  shows "ErrorCode_String v = Returns (''ErrorCode('' @ Sprintf_d (sint v) @ '')'')"
proof -
  have "sint (v - 1) < 0 \<or> 16 \<le> sint (v - 1)"
    using assms sint_ge [of v] by (auto simp add: sint_pred)
  then show ?thesis
    by (simp add: ErrorCode_String_def String_body_def ErrorCode_index_def)
qed

lemma String_slice:
  assumes "1 \<le> sint (v :: ErrorCode)" "sint v \<le> 16"
  shows "ErrorCode_index ! nat (sint v - 1) \<le> ErrorCode_index ! nat (sint v) \<and>
         ErrorCode_index ! nat (sint v) \<le> length ErrorCode_name \<and>
         ErrorCode_String v =
           Returns (take (ErrorCode_index ! nat (sint v) - ErrorCode_index ! nat (sint v - 1))
                      (drop (ErrorCode_index ! nat (sint v - 1)) ErrorCode_name))"
  using code_cases_16 [OF assms]
  by (auto simp add: String_defs ErrorCode_name_def ErrorCode_index_def)

text \<open>
  C9. For every value \<open>v\<close> of the 64-bit signed type, zero, negative and past the last
  code included, \<open>ErrorCode.String\<close> of \<open>pkg/errorcode_string.go\<close> returns and never
  panics on an index or a slice. Outside the defined codes \<open>1..16\<close> it returns the
  fallback \<open>ErrorCode(n)\<close> with \<open>n\<close> the original value (for the least value \<open>i - 1\<close>
  wraps to the greatest and \<open>i + 1\<close> wraps back). Inside, both table reads are within the
  seventeen entries of the index table, and the slice bounds are ordered and within the
  length of the name table.
\<close>

theorem ErrorCode_String_in_bounds:
  "(\<exists>s. ErrorCode_String v = Returns s) \<and>
   (sint v < 1 \<or> 16 < sint v \<longrightarrow>
      ErrorCode_String v = Returns (''ErrorCode('' @ Sprintf_d (sint v) @ '')'')) \<and>
   (1 \<le> sint v \<and> sint v \<le> 16 \<longrightarrow>
      nat (sint v) < length ErrorCode_index \<and>
      ErrorCode_index ! nat (sint v - 1) \<le> ErrorCode_index ! nat (sint v) \<and>
      ErrorCode_index ! nat (sint v) \<le> length ErrorCode_name \<and>
      ErrorCode_String v =
        Returns (take (ErrorCode_index ! nat (sint v) - ErrorCode_index ! nat (sint v - 1))
                   (drop (ErrorCode_index ! nat (sint v - 1)) ErrorCode_name)))"
proof (cases "1 \<le> sint v \<and> sint v \<le> 16")
  case True
  have "length ErrorCode_index = 17"
    by (simp add: ErrorCode_index_def)
  with True have "nat (sint v) < length ErrorCode_index"
    by linarith
  with True String_slice [of v] show ?thesis
    by auto
next
  case False
  then have "sint v < 1 \<or> 16 < sint v"
    by auto
  with False String_fallback [of v] show ?thesis
    by auto
qed

theorem ErrorCode_String_in_bounds_witness:
  "ErrorCode_String 0 = Returns ''ErrorCode(0)'' \<and>
   ErrorCode_String (- 3) = Returns ''ErrorCode(-3)'' \<and>
   ErrorCode_String 17 = Returns ''ErrorCode(17)'' \<and>
   ErrorCode_String (word_of_int (- (2 ^ 63))) = Returns ''ErrorCode(-9223372036854775808)'' \<and>
   ErrorCode_String 16 = Returns ''ErrUnknown'' \<and>
   ErrorCode_index ! 15 \<le> ErrorCode_index ! 16 \<and>
   ErrorCode_index ! 16 \<le> length ErrorCode_name"
  using ErrorCode_String_in_bounds [of 0] ErrorCode_String_in_bounds [of "- 3"]
    ErrorCode_String_in_bounds [of 17] ErrorCode_String_in_bounds [of 16]
    ErrorCode_String_in_bounds [of "word_of_int (- (2 ^ 63))"]
  by (simp add: Sprintf_d_def decimal.simps ErrorCode_index_def ErrorCode_name_def)

text \<open>
  The table of \<open>pkg/errorcode_string.go\<close> is that of a version with sixteen kinds:
  the codes 1 to 16 are printed under sixteen distinct names, and no value is printed as
  \<open>ErrInvalidLoginKey\<close>.
\<close>

lemma ErrorCode_String_never_InvalidLoginKey:
  "ErrorCode_String v \<noteq> Returns ''ErrInvalidLoginKey''"
proof (cases "1 \<le> sint v \<and> sint v \<le> 16")
  case True
  then have "v \<in> {1, 2, 3, 4, 5, 6, 7, 8, 9, 10, 11, 12, 13, 14, 15, 16}"
    using code_cases_16 by blast
  then show ?thesis
    by (auto simp add: String_defs ErrorCode_name_def ErrorCode_index_def)
next
  case False
  then have "sint v < 1 \<or> 16 < sint v"
    by auto
  then show ?thesis
    by (simp add: String_fallback)
qed

lemma ErrorCode_String_sixteen_names:
  "map ErrorCode_String [1, 2, 3, 4, 5, 6, 7, 8, 9, 10, 11, 12, 13, 14, 15, 16] =
   map Returns
     [''ErrBadRequestJSON'', ''ErrDatabaseError'', ''ErrInvalidUsername'', ''ErrNotRegistered'',
      ''ErrNotVerified'', ''ErrAlreadyRegistered'', ''ErrRegistrationInProgress'',
      ''ErrSendingEmail'', ''ErrRoundNotFound'', ''ErrInvalidUserLongTermKey'',
      ''ErrInvalidSignature'', ''ErrInvalidToken'', ''ErrExpiredToken'', ''ErrUnauthorized'',
      ''ErrBadCommitment'', ''ErrUnknown'']"
  by (simp add: String_defs ErrorCode_name_def ErrorCode_index_def)

text \<open>
  C4. The \<open>ErrorCode\<close> constants are declared outside the sources at hand; the
  generated table is their record. It holds the names of the constants in the order of
  their values, and the method's \<open>i -= 1\<close> puts the first of them at the value 1, so
  the code of a kind is the position of its name in the table. With the seventeen-name
  table, the version of the method that knows all the kinds of the specification, the
  codes 1 to 17 are printed as the seventeen kinds of the specification, in its order,
  each as \<open>Err\<close> followed by the name of the kind.
\<close>

theorem ErrorCode_String_seventeen_kinds:
  "map ErrorCode_String_2 [1, 2, 3, 4, 5, 6, 7, 8, 9, 10, 11, 12, 13, 14, 15, 16, 17] =
   map (\<lambda>kind. Returns (''Err'' @ kind)) error_kinds"
  by (simp add: String_defs ErrorCode_name_2_def ErrorCode_index_2_def error_kinds_def)

section \<open>Properties of the persistence code\<close>

lemmas example_defs =
  bob_def ex_deps_def ex_deps_failing_def empty_disk_def null_friend_disk_def
  null_friend_state_def bob_disk_def mode_0600_def

text \<open>
  C6. With an empty \<open>ClientPersistPath\<close>, \<open>persistClientLocked\<close> returns a nil error
  and leaves the disk as it was: no file is changed and no write is attempted. The same
  holds of \<open>persistKeywheelLocked\<close> with an empty \<open>KeywheelPersistPath\<close>.
\<close>

theorem persist_empty_path_noop:
  "(ClientPersistPath c = [] \<longrightarrow> persistClientLocked deps c d = Returns (None, d)) \<and>
   (KeywheelPersistPath c = [] \<longrightarrow> persistKeywheelLocked deps c d = Returns (None, d))"
  by (simp add: persistClientLocked_def persistKeywheelLocked_def)

theorem persist_empty_path_noop_witness:
  "ClientPersistPath (bob\<lparr>ClientPersistPath := [], KeywheelPersistPath := []\<rparr>) = [] \<and>
   persistClientLocked ex_deps_failing (bob\<lparr>ClientPersistPath := [], KeywheelPersistPath := []\<rparr>)
     null_friend_disk = Returns (None, null_friend_disk) \<and>
   KeywheelPersistPath (bob\<lparr>ClientPersistPath := [], KeywheelPersistPath := []\<rparr>) = [] \<and>
   persistKeywheelLocked ex_deps_failing (bob\<lparr>ClientPersistPath := [], KeywheelPersistPath := []\<rparr>)
     null_friend_disk = Returns (None, null_friend_disk)"
  using persist_empty_path_noop
    [of "bob\<lparr>ClientPersistPath := [], KeywheelPersistPath := []\<rparr>" ex_deps_failing
      null_friend_disk]
  by simp

text \<open>
  C3. Whenever the client sub-write returns, with an error or without, \<open>persistLocked\<close>
  goes on to the keywheel sub-write, on the disk the client sub-write left. It returns
  the client blob's error when there is one and the keywheel's otherwise (nil when both
  are nil). The attempt is visible on the disk: when a keywheel path is configured and
  the keywheel marshals, the last logged write is the keywheel write, whether or not
  the client write failed.
\<close>

theorem persistLocked_first_error:
  assumes "persistClientLocked deps c d = Returns (err, d1)"
  shows "\<exists>e d2.
           persistKeywheelLocked deps c d1 = Returns (e, d2) \<and>
           persistLocked deps c d = Returns (case err of None \<Rightarrow> e | Some x \<Rightarrow> Some x, d2) \<and>
           (\<forall>data. KeywheelPersistPath c \<noteq> [] \<and> Wheel_MarshalBinary deps (wheel c) = Inr data \<longrightarrow>
                   writes d2 = writes d1 @ [(KeywheelPersistPath c, data, mode_0600)])"
proof (cases "KeywheelPersistPath c = []")
  case True
  with assms show ?thesis
    by (simp add: persistLocked_def persistKeywheelLocked_def split: option.split)
next
  case False
  show ?thesis
  proof (cases "Wheel_MarshalBinary deps (wheel c)")
    case (Inl e)
    with False assms show ?thesis
      by (simp add: persistLocked_def persistKeywheelLocked_def split: option.split)
  next
    case (Inr data)
    obtain e d2 where w: "WriteFileAtomic deps d1 (KeywheelPersistPath c) data mode_0600 = (e, d2)"
      by (cases "WriteFileAtomic deps d1 (KeywheelPersistPath c) data mode_0600")
    then have "writes d2 = writes d1 @ [(KeywheelPersistPath c, data, mode_0600)]"
      by (auto simp add: WriteFileAtomic_def Let_def split: option.splits)
    with False Inr w assms show ?thesis
      by (simp add: persistLocked_def persistKeywheelLocked_def split: option.split)
  qed
qed

theorem persistLocked_first_error_witness:
  "persistClientLocked ex_deps_failing bob empty_disk =
     Returns (Some (Error ''disk full''),
       \<lparr>files = Map.empty,
        writes = [(''bob-client'', ''{  bob@example.org}'', mode_0600)]\<rparr>) \<and>
   (\<exists>d2. persistLocked ex_deps_failing bob empty_disk = Returns (Some (Error ''disk full''), d2) \<and>
      writes d2 =
        [(''bob-client'', ''{  bob@example.org}'', mode_0600),
         (''bob-keywheel'', CHR 0x01 # ''alice@example.org:round 12'', mode_0600)])"
proof -
  have client:
    "persistClientLocked ex_deps_failing bob empty_disk =
       Returns (Some (Error ''disk full''),
         \<lparr>files = Map.empty,
          writes = [(''bob-client'', ''{  bob@example.org}'', mode_0600)]\<rparr>)"
    by (simp add: persistClientLocked_def persist_Friends_def json_view_def
        WriteFileAtomic_def example_defs)
  have marshal:
    "Wheel_MarshalBinary ex_deps_failing (wheel bob) = Inr (CHR 0x01 # ''alice@example.org:round 12'')"
    by (simp add: example_defs)
  have path: "KeywheelPersistPath bob = ''bob-keywheel''"
    by (simp add: bob_def)
  from persistLocked_first_error [OF client] marshal path client show ?thesis
    by auto
qed

lemma persist_Friends_blob_state:
  "map_option persist_Friend \<circ> friends c = Friends (blob_state c)"
  by (auto simp add: blob_state_def fun_eq_iff split: option.split ptr.split)

lemma persistClientLocked_unfold:
  assumes "ClientPersistPath c \<noteq> []" and "NilPtr \<notin> ran (friends c)"
  shows "persistClientLocked deps c d =
           (case json_MarshalIndent deps (json_view (blob_state c)) [] ''  '' of
              Inl err \<Rightarrow> Returns (Some err, d)
            | Inr data \<Rightarrow> Returns (WriteFileAtomic deps d (ClientPersistPath c) data mode_0600))"
proof -
  have "blob_state c =
          \<lparr>persistedState.Username = Client.Username c,
           LongTermPublicKey = Client.LongTermPublicKey c,
           LongTermPrivateKey = Client.LongTermPrivateKey c,
           PKGLoginKey = Client.PKGLoginKey c,
           AddFriendConfig = addFriendConfig c,
           DialingConfig = dialingConfig c,
           IncomingFriendRequests = incomingFriendRequests c,
           OutgoingFriendRequests = outgoingFriendRequests c,
           SentFriendRequests = sentFriendRequests c,
           Friends = map_option persist_Friend \<circ> friends c\<rparr>"
    by (simp add: persist_Friends_blob_state) (simp add: blob_state_def)
  with assms show ?thesis
    by (simp add: persistClientLocked_def persist_Friends_def)
qed

lemma set_client_backrefs:
  "set_client a reqs = Returns reqs' \<Longrightarrow>
   \<forall>p \<in> set reqs'. \<exists>req. p = Ptr req \<and> request.client req = Ptr a"
proof (induction a reqs arbitrary: reqs' rule: set_client.induct)
  case (1 c)
  then show ?case by simp
next
  case (2 c reqs)
  then show ?case by simp
next
  case (3 c req reqs)
  then show ?case
    by (auto split: outcome.splits)
qed

lemma load_Friends_backrefs:
  assumes "load_Friends a m = Returns fs"
  shows "\<forall>p \<in> ran fs. \<exists>friend. p = Ptr friend \<and> Friend.client friend = Ptr a"
proof
  fix p
  assume "p \<in> ran fs"
  then obtain username where "fs username = Some p"
    by (auto simp add: ran_def)
  moreover from assms have "NilPtr \<notin> ran m" and "fs = map_option (load_Friend a) \<circ> m"
    by (auto simp add: load_Friends_def split: if_splits)
  ultimately obtain q where q: "m username = Some q" "p = load_Friend a q"
    by auto
  with \<open>NilPtr \<notin> ran m\<close> have "q \<noteq> NilPtr"
    by (auto simp add: ran_def)
  then obtain friend where "q = Ptr friend"
    by (cases q) auto
  with q show "\<exists>friend. p = Ptr friend \<and> Friend.client friend = Ptr a"
    by simp
qed

lemma exported_only_request_with_client:
  "exported_only \<circ> request_with_client p = exported_only"
proof
  fix r :: "'a request ptr"
  show "(exported_only \<circ> request_with_client p) r = exported_only r"
    by (cases r) simp_all
qed

lemma persist_Friend_friend_with_client:
  "persist_Friend \<circ> friend_with_client p = persist_Friend"
proof
  fix f
  show "(persist_Friend \<circ> friend_with_client p) f = persist_Friend f"
    by (cases f) simp_all
qed

lemma friend_with_client_nil: "friend_with_client p f = NilPtr \<longleftrightarrow> f = NilPtr"
  by (cases f) simp_all

lemma persist_Friends_with_backrefs:
  "persist_Friends (map_option (friend_with_client p) \<circ> m) = persist_Friends m"
proof -
  have "NilPtr \<in> ran (map_option (friend_with_client p) \<circ> m) \<longleftrightarrow> NilPtr \<in> ran m"
    by (auto simp add: ran_def friend_with_client_nil)
  moreover have "map_option persist_Friend \<circ> (map_option (friend_with_client p) \<circ> m) =
                 map_option persist_Friend \<circ> m"
    by (auto simp add: fun_eq_iff option.map_comp persist_Friend_friend_with_client
        split: option.split)
  ultimately show ?thesis
    by (simp add: persist_Friends_def)
qed

lemma persistClientLocked_ignores_backrefs:
  "persistClientLocked deps (with_backrefs p c) d = persistClientLocked deps c d"
  by (simp add: persistClientLocked_def with_backrefs_def persist_Friends_with_backrefs
      json_view_def exported_only_request_with_client Let_def
      split: outcome.split sum.split)


text \<open>
  C5. For a client with a configured \<open>ClientPersistPath\<close> (and no nil friend, on which
  the loop would panic), \<open>persistClientLocked\<close> marshals, with an empty prefix and an
  indent of two spaces, the state that has exactly the ten fields \<open>Username\<close>,
  \<open>LongTermPublicKey\<close>, \<open>LongTermPrivateKey\<close>, \<open>PKGLoginKey\<close>, \<open>AddFriendConfig\<close>,
  \<open>DialingConfig\<close>, the three request lists (their exported fields) and \<open>Friends\<close>,
  where the friend map has the client's keys and each friend is stored as its
  \<open>Username\<close>, \<open>LongTermKey\<close> and \<open>ExtraData\<close>. A marshalling error is returned with
  nothing written. Otherwise the data goes to \<open>WriteFileAtomic\<close> with the client's path
  and mode \<open>0600\<close>: on success the file holds the whole data with mode \<open>0600\<close>, on
  failure the files are as before. The temporary file and the rename are inside
  \<open>WriteFileAtomic\<close>, whose outcome is modelled from the specification.
\<close>

theorem persistClientLocked_writes_blob:
  assumes "ClientPersistPath c \<noteq> []" and "NilPtr \<notin> ran (friends c)"
  shows "\<exists>st fs.
           st = \<lparr>persistedState.Username = Client.Username c,
                 LongTermPublicKey = Client.LongTermPublicKey c,
                 LongTermPrivateKey = Client.LongTermPrivateKey c,
                 PKGLoginKey = Client.PKGLoginKey c,
                 AddFriendConfig = addFriendConfig c,
                 DialingConfig = dialingConfig c,
                 IncomingFriendRequests = map exported_only (incomingFriendRequests c),
                 OutgoingFriendRequests = map exported_only (outgoingFriendRequests c),
                 SentFriendRequests = map exported_only (sentFriendRequests c),
                 Friends = fs\<rparr> \<and>
           dom fs = dom (friends c) \<and>
           (\<forall>username friend. friends c username = Some (Ptr friend) \<longrightarrow>
              fs username = Some (Ptr \<lparr>persistedFriend.Username = Friend.Username friend,
                                       LongTermKey = Friend.LongTermKey friend,
                                       ExtraData = extraData friend\<rparr>)) \<and>
           mode_0600 = 384 \<and>
           persistClientLocked deps c d =
             (case json_MarshalIndent deps st [] ''  '' of
                Inl err \<Rightarrow> Returns (Some err, d)
              | Inr data \<Rightarrow>
                  (case write_fault deps (ClientPersistPath c) of
                     Some err \<Rightarrow>
                       Returns (Some err,
                         \<lparr>files = files d,
                          writes = writes d @ [(ClientPersistPath c, data, mode_0600)]\<rparr>)
                   | None \<Rightarrow>
                       Returns (None,
                         \<lparr>files = (files d)(ClientPersistPath c \<mapsto>
                                   \<lparr>contents = data, perm = mode_0600\<rparr>),
                          writes = writes d @ [(ClientPersistPath c, data, mode_0600)]\<rparr>)))"
proof -
  let ?fs = "Friends (blob_state c)"
  have st: "json_view (blob_state c) =
          \<lparr>persistedState.Username = Client.Username c,
           LongTermPublicKey = Client.LongTermPublicKey c,
           LongTermPrivateKey = Client.LongTermPrivateKey c,
           PKGLoginKey = Client.PKGLoginKey c,
           AddFriendConfig = addFriendConfig c,
           DialingConfig = dialingConfig c,
           IncomingFriendRequests = map exported_only (incomingFriendRequests c),
           OutgoingFriendRequests = map exported_only (outgoingFriendRequests c),
           SentFriendRequests = map exported_only (sentFriendRequests c),
           Friends = ?fs\<rparr>"
    by (simp add: json_view_def blob_state_def)
  have dom: "dom ?fs = dom (friends c)"
    by (auto simp add: blob_state_def split: option.splits ptr.splits)
  have entries: "\<forall>username friend. friends c username = Some (Ptr friend) \<longrightarrow>
      ?fs username = Some (Ptr \<lparr>persistedFriend.Username = Friend.Username friend,
                                LongTermKey = Friend.LongTermKey friend,
                                ExtraData = extraData friend\<rparr>)"
    by (simp add: blob_state_def)
  have mode: "mode_0600 = 384"
    by (simp add: mode_0600_def)
  have run: "persistClientLocked deps c d =
      (case json_MarshalIndent deps (json_view (blob_state c)) [] ''  '' of
         Inl err \<Rightarrow> Returns (Some err, d)
       | Inr data \<Rightarrow>
           (case write_fault deps (ClientPersistPath c) of
              Some err \<Rightarrow>
                Returns (Some err,
                  \<lparr>files = files d,
                   writes = writes d @ [(ClientPersistPath c, data, mode_0600)]\<rparr>)
            | None \<Rightarrow>
                Returns (None,
                  \<lparr>files = (files d)(ClientPersistPath c \<mapsto>
                            \<lparr>contents = data, perm = mode_0600\<rparr>),
                   writes = writes d @ [(ClientPersistPath c, data, mode_0600)]\<rparr>)))"
    by (simp add: persistClientLocked_unfold [OF assms] WriteFileAtomic_def Let_def
        split: sum.split option.split)
  show ?thesis
    by (rule exI [of _ "json_view (blob_state c)"], rule exI [of _ ?fs])
      (intro conjI st dom entries mode run)
qed

theorem persistClientLocked_writes_blob_witness:
  "ClientPersistPath bob \<noteq> [] \<and> NilPtr \<notin> ran (friends bob) \<and>
   persistClientLocked ex_deps bob empty_disk =
     Returns (None,
       \<lparr>files = [''bob-client'' \<mapsto> \<lparr>contents = ''{  bob@example.org}'', perm = 384\<rparr>],
        writes = [(''bob-client'', ''{  bob@example.org}'', 384)]\<rparr>)"
proof -
  have hyps: "ClientPersistPath bob \<noteq> []" "NilPtr \<notin> ran (friends bob)"
    by (simp_all add: bob_def)
  from persistClientLocked_writes_blob [OF hyps, of ex_deps empty_disk] hyps show ?thesis
    by (auto simp add: example_defs)
qed

lemma loadStateLocked_sets_client:
  assumes "loadStateLocked deps a c st = Returns c'"
  shows "(\<forall>p \<in> set (incomingFriendRequests c'). \<exists>req. p = Ptr req \<and> request.client req = Ptr a) \<and>
         (\<forall>p \<in> set (outgoingFriendRequests c'). \<exists>req. p = Ptr req \<and> request.client req = Ptr a) \<and>
         (\<forall>p \<in> set (sentFriendRequests c'). \<exists>req. p = Ptr req \<and> request.client req = Ptr a) \<and>
         (\<forall>p \<in> ran (friends c'). \<exists>friend. p = Ptr friend \<and> Friend.client friend = Ptr a)"
proof -
  from assms obtain incoming outgoing sent fs where
    parts: "set_client a (IncomingFriendRequests st) = Returns incoming"
      "set_client a (OutgoingFriendRequests st) = Returns outgoing"
      "set_client a (SentFriendRequests st) = Returns sent"
      "load_Friends a (Friends st) = Returns fs"
    and fields: "incomingFriendRequests c' = incoming" "outgoingFriendRequests c' = outgoing"
      "sentFriendRequests c' = sent" "friends c' = fs"
    by (auto simp add: loadStateLocked_def split: outcome.splits)
  from set_client_backrefs [OF parts(1)] fields(1)
  have incoming: "\<forall>p \<in> set (incomingFriendRequests c'). \<exists>req. p = Ptr req \<and> request.client req = Ptr a"
    by simp
  from set_client_backrefs [OF parts(2)] fields(2)
  have outgoing: "\<forall>p \<in> set (outgoingFriendRequests c'). \<exists>req. p = Ptr req \<and> request.client req = Ptr a"
    by simp
  from set_client_backrefs [OF parts(3)] fields(3)
  have sent: "\<forall>p \<in> set (sentFriendRequests c'). \<exists>req. p = Ptr req \<and> request.client req = Ptr a"
    by simp
  from load_Friends_backrefs [OF parts(4)] fields(4)
  have fr: "\<forall>p \<in> ran (friends c'). \<exists>friend. p = Ptr friend \<and> Friend.client friend = Ptr a"
    by simp
  show ?thesis
    by (intro conjI incoming outgoing sent fr)
qed

lemma loadStateLocked_well_formed:
  assumes "loadStateLocked deps a c st = Returns c'"
  shows "well_formed deps c'"
proof -
  from assms have hashes:
    "SignedConfig_Hash deps (addFriendConfig c') = Returns (addFriendConfigHash c')"
    "SignedConfig_Hash deps (dialingConfig c') = Returns (dialingConfigHash c')"
    by (auto simp add: loadStateLocked_def split: outcome.splits)
  from loadStateLocked_sets_client [OF assms] have
    "NilPtr \<notin> set (incomingFriendRequests c')" "NilPtr \<notin> set (outgoingFriendRequests c')"
    "NilPtr \<notin> set (sentFriendRequests c')" "NilPtr \<notin> ran (friends c')"
    by blast+
  with hashes show ?thesis
    by (simp add: well_formed_def)
qed

lemma persist_Friend_nil: "persist_Friend f = NilPtr \<longleftrightarrow> f = NilPtr"
  by (cases f) simp_all

lemma ran_persisted_nil:
  "NilPtr \<in> ran (map_option persist_Friend \<circ> m) \<longleftrightarrow> NilPtr \<in> ran m"
  by (auto simp add: ran_def persist_Friend_nil)

lemma load_Friend_persist_Friend:
  "load_Friend a \<circ> persist_Friend = friend_with_client (Ptr a)"
proof
  fix f
  show "(load_Friend a \<circ> persist_Friend) f = friend_with_client (Ptr a) f"
    by (cases f) simp_all
qed

lemma load_Friends_blob_state:
  assumes "NilPtr \<notin> ran (friends c)"
  shows "load_Friends a (Friends (blob_state c)) =
           Returns (map_option (friend_with_client (Ptr a)) \<circ> friends c)"
proof -
  have "map_option (load_Friend a) \<circ> (map_option persist_Friend \<circ> friends c) =
        map_option (friend_with_client (Ptr a)) \<circ> friends c"
    by (simp add: fun_eq_iff option.map_comp load_Friend_persist_Friend)
  with assms show ?thesis
    by (simp add: load_Friends_def persist_Friends_blob_state [symmetric] ran_persisted_nil)
qed

lemma set_client_exported_only:
  "NilPtr \<notin> set reqs \<Longrightarrow>
   set_client a (map exported_only reqs) = Returns (map (request_with_client (Ptr a)) reqs)"
proof (induction reqs)
  case Nil
  show ?case by simp
next
  case (Cons r reqs)
  then show ?case
    by (cases r) simp_all
qed

text \<open>
  Loading what was persisted: on the state a well-formed client is persisted as,
  \<open>loadStateLocked\<close> returns, and gives the receiver the client's persisted fields, the
  back-references pointing to the receiver.
\<close>

lemma loadStateLocked_blob_state:
  assumes "well_formed deps c"
  shows "loadStateLocked deps a c0 (json_view (blob_state c)) =
           Returns (c0\<lparr>Client.Username := Client.Username c,
                      Client.LongTermPublicKey := Client.LongTermPublicKey c,
                      Client.LongTermPrivateKey := Client.LongTermPrivateKey c,
                      Client.PKGLoginKey := Client.PKGLoginKey c,
                      addFriendConfig := addFriendConfig c,
                      addFriendConfigHash := addFriendConfigHash c,
                      dialingConfig := dialingConfig c,
                      dialingConfigHash := dialingConfigHash c,
                      incomingFriendRequests :=
                        map (request_with_client (Ptr a)) (incomingFriendRequests c),
                      outgoingFriendRequests :=
                        map (request_with_client (Ptr a)) (outgoingFriendRequests c),
                      sentFriendRequests :=
                        map (request_with_client (Ptr a)) (sentFriendRequests c),
                      friends := map_option (friend_with_client (Ptr a)) \<circ> friends c\<rparr>)"
proof -
  have view:
    "AddFriendConfig (json_view (blob_state c)) = addFriendConfig c"
    "DialingConfig (json_view (blob_state c)) = dialingConfig c"
    "IncomingFriendRequests (json_view (blob_state c)) = map exported_only (incomingFriendRequests c)"
    "OutgoingFriendRequests (json_view (blob_state c)) = map exported_only (outgoingFriendRequests c)"
    "SentFriendRequests (json_view (blob_state c)) = map exported_only (sentFriendRequests c)"
    "Friends (json_view (blob_state c)) = Friends (blob_state c)"
    "persistedState.Username (json_view (blob_state c)) = Client.Username c"
    "persistedState.LongTermPublicKey (json_view (blob_state c)) = Client.LongTermPublicKey c"
    "persistedState.LongTermPrivateKey (json_view (blob_state c)) = Client.LongTermPrivateKey c"
    "persistedState.PKGLoginKey (json_view (blob_state c)) = Client.PKGLoginKey c"
    by (simp_all add: json_view_def blob_state_def)
  from assms show ?thesis
    unfolding loadStateLocked_def view
    by (simp add: well_formed_def set_client_exported_only load_Friends_blob_state)
qed

text \<open>
  C7. When \<open>loadStateLocked\<close> has run on a persisted state (and returned: it panics on
  a nil entry), every incoming, outgoing and sent friend request of the client and every
  friend in its map is a non-nil pointer whose \<open>client\<close> field points to that client.
  The back-reference is never persisted: \<open>persistedFriend\<close> has the three fields
  \<open>Username\<close>, \<open>LongTermKey\<close>, \<open>ExtraData\<close> and \<open>persistedState\<close> the ten of its
  record, none of them a client pointer, and what \<open>persistClientLocked\<close> returns and
  writes is the same whatever the back-references of the requests and friends are.
\<close>

theorem loadStateLocked_backrefs:
  assumes "loadStateLocked deps a c st = Returns c'"
  shows "(\<forall>p \<in> set (incomingFriendRequests c'). \<exists>req. p = Ptr req \<and> request.client req = Ptr a) \<and>
         (\<forall>p \<in> set (outgoingFriendRequests c'). \<exists>req. p = Ptr req \<and> request.client req = Ptr a) \<and>
         (\<forall>p \<in> set (sentFriendRequests c'). \<exists>req. p = Ptr req \<and> request.client req = Ptr a) \<and>
         (\<forall>p \<in> ran (friends c'). \<exists>friend. p = Ptr friend \<and> Friend.client friend = Ptr a) \<and>
         (\<forall>p d. persistClientLocked deps (with_backrefs p c') d = persistClientLocked deps c' d)"
  using loadStateLocked_sets_client [OF assms]
  by (simp add: persistClientLocked_ignores_backrefs)

theorem loadStateLocked_backrefs_witness:
  "\<exists>c'. loadStateLocked ex_deps 9 (new_Client ex_deps ''bob-client'' ''bob-keywheel'')
            (json_view (blob_state bob)) = Returns c' \<and>
      incomingFriendRequests c' = [Ptr \<lparr>exported = ''from carol'', client = Ptr 9\<rparr>] \<and>
      outgoingFriendRequests c' = [] \<and>
      sentFriendRequests c' = [Ptr \<lparr>exported = ''to dave, round 11'', client = Ptr 9\<rparr>] \<and>
      friends c' ''alice@example.org'' =
        Some (Ptr \<lparr>Friend.Username = ''alice@example.org'', LongTermKey = ''alice-public'',
                   extraData = ''met at work'', client = Ptr 9\<rparr>) \<and>
      persistClientLocked ex_deps (with_backrefs NilPtr c') empty_disk =
        persistClientLocked ex_deps c' empty_disk"
proof -
  have "well_formed ex_deps bob"
    by (simp add: well_formed_def example_defs)
  from loadStateLocked_blob_state [OF this, of 9 "new_Client ex_deps ''bob-client'' ''bob-keywheel''"]
  obtain c' where load:
    "loadStateLocked ex_deps 9 (new_Client ex_deps ''bob-client'' ''bob-keywheel'')
       (json_view (blob_state bob)) = Returns c'"
    and fields:
    "incomingFriendRequests c' = [Ptr \<lparr>exported = ''from carol'', client = Ptr 9\<rparr>]"
    "outgoingFriendRequests c' = []"
    "sentFriendRequests c' = [Ptr \<lparr>exported = ''to dave, round 11'', client = Ptr 9\<rparr>]"
    "friends c' ''alice@example.org'' =
       Some (Ptr \<lparr>Friend.Username = ''alice@example.org'', LongTermKey = ''alice-public'',
                  extraData = ''met at work'', client = Ptr 9\<rparr>)"
    by (simp add: bob_def)
  from loadStateLocked_backrefs [OF load] load fields show ?thesis
    by blast
qed

subsection \<open>What \<open>LoadClient\<close> returns\<close>

lemma LoadClient_cases:
  "LoadClient deps a cp kp d =
     (case ReadFile deps d cp of
        Inl e \<Rightarrow> Returns (Inl e)
      | Inr data \<Rightarrow>
          (case json_Unmarshal deps data of
             Inl e \<Rightarrow> Returns (Inl e)
           | Inr st \<Rightarrow>
               (case ReadFile deps d kp of
                  Inl e \<Rightarrow> Returns (Inl e)
                | Inr kdata \<Rightarrow>
                    (case Wheel_UnmarshalBinary deps (Wheel_zero deps) kdata of
                       Inl e \<Rightarrow> Returns (Inl e)
                     | Inr w \<Rightarrow>
                         (case loadStateLocked deps a ((new_Client deps cp kp)\<lparr>wheel := w\<rparr>) st of
                            Panic \<Rightarrow> Panic
                          | Returns c' \<Rightarrow> Returns (Inr (a, c')))))))"
  by (simp add: LoadClient_def Let_def new_Client_def split: sum.split)

lemma bob_well_formed: "well_formed ex_deps bob"
  by (simp add: well_formed_def example_defs)

lemma read_bob_disk:
  "ReadFile ex_deps bob_disk ''bob-client'' = Inr ''{  bob@example.org}''"
  "ReadFile ex_deps bob_disk ''bob-keywheel'' = Inr (CHR 0x01 # ''alice@example.org:round 12'')"
  "json_Unmarshal ex_deps ''{  bob@example.org}'' = Inr (json_view (blob_state bob))"
  "Wheel_UnmarshalBinary ex_deps (Wheel_zero ex_deps) (CHR 0x01 # ''alice@example.org:round 12'') =
     Inr ''alice@example.org:round 12''"
  by (simp_all add: ReadFile_def ex_deps_def bob_disk_def)

lemma LoadClient_bob_disk:
  "\<exists>c'. LoadClient ex_deps 9 ''bob-client'' ''bob-keywheel'' bob_disk = Returns (Inr (9, c')) \<and>
         Client.Username c' = ''bob@example.org'' \<and>
         addFriendConfig c' = Ptr ''addfriend config'' \<and>
         addFriendConfigHash c' = ''hash of addfriend config''"
  by (simp add: LoadClient_cases read_bob_disk loadStateLocked_blob_state [OF bob_well_formed])
    (simp add: bob_def)

lemma read_null_friend_disk:
  "ReadFile ex_deps null_friend_disk ''mallory-client'' = Inr ''{  mallory@example.org}''"
  "ReadFile ex_deps null_friend_disk ''mallory-keywheel'' = Inr [CHR 0x01]"
  "json_Unmarshal ex_deps ''{  mallory@example.org}'' = Inr null_friend_state"
  "Wheel_UnmarshalBinary ex_deps (Wheel_zero ex_deps) [CHR 0x01] = Inr []"
  by (simp_all add: ReadFile_def ex_deps_def null_friend_disk_def)

lemma loadStateLocked_null_friend:
  "loadStateLocked ex_deps a c null_friend_state = Panic"
  by (simp add: loadStateLocked_def load_Friends_def null_friend_state_def ex_deps_def)

lemma LoadClient_null_friend_disk:
  "LoadClient ex_deps 9 ''mallory-client'' ''mallory-keywheel'' null_friend_disk = Panic"
  by (simp add: LoadClient_cases read_null_friend_disk loadStateLocked_null_friend)

text \<open>
  C10 (as amended). \<open>LoadClient\<close> goes through four steps in order: reading the client
  file, \<open>json.Unmarshal\<close>, reading the keywheel file, the keywheel's \<open>UnmarshalBinary\<close>.
  The first step that fails ends the call with nil and that step's error. When all four
  succeed the call is \<open>loadStateLocked\<close> on the decoded state: it returns the client
  that \<open>loadStateLocked\<close> returns, or panics where \<open>loadStateLocked\<close> panics (a nil
  request or friend in the decoded state, or a panic of \<open>Hash\<close>). So a non-nil client is
  returned only if all four steps succeed, and every client returned is one that
  \<open>loadStateLocked\<close> has run on to its end: none is partially initialised.
\<close>

theorem LoadClient_returns:
  "(\<forall>e. ReadFile deps d cp = Inl e \<longrightarrow> LoadClient deps a cp kp d = Returns (Inl e)) \<and>
   (\<forall>data e. ReadFile deps d cp = Inr data \<and> json_Unmarshal deps data = Inl e \<longrightarrow>
      LoadClient deps a cp kp d = Returns (Inl e)) \<and>
   (\<forall>data st e. ReadFile deps d cp = Inr data \<and> json_Unmarshal deps data = Inr st \<and>
      ReadFile deps d kp = Inl e \<longrightarrow>
      LoadClient deps a cp kp d = Returns (Inl e)) \<and>
   (\<forall>data st kdata e. ReadFile deps d cp = Inr data \<and> json_Unmarshal deps data = Inr st \<and>
      ReadFile deps d kp = Inr kdata \<and>
      Wheel_UnmarshalBinary deps (Wheel_zero deps) kdata = Inl e \<longrightarrow>
      LoadClient deps a cp kp d = Returns (Inl e)) \<and>
   (\<forall>data st kdata w. ReadFile deps d cp = Inr data \<and> json_Unmarshal deps data = Inr st \<and>
      ReadFile deps d kp = Inr kdata \<and>
      Wheel_UnmarshalBinary deps (Wheel_zero deps) kdata = Inr w \<longrightarrow>
      LoadClient deps a cp kp d =
        (case loadStateLocked deps a ((new_Client deps cp kp)\<lparr>wheel := w\<rparr>) st of
           Panic \<Rightarrow> Panic
         | Returns c' \<Rightarrow> Returns (Inr (a, c')))) \<and>
   (\<forall>r c'. LoadClient deps a cp kp d = Returns (Inr (r, c')) \<longrightarrow>
      r = a \<and>
      (\<exists>data st kdata w. ReadFile deps d cp = Inr data \<and> json_Unmarshal deps data = Inr st \<and>
         ReadFile deps d kp = Inr kdata \<and>
         Wheel_UnmarshalBinary deps (Wheel_zero deps) kdata = Inr w \<and>
         loadStateLocked deps a ((new_Client deps cp kp)\<lparr>wheel := w\<rparr>) st = Returns c'))"
  by (auto simp add: LoadClient_cases split: sum.splits outcome.splits)

theorem LoadClient_returns_witness:
  "ReadFile ex_deps empty_disk ''bob-client'' = Inl (Error ''no such file or directory'') \<and>
   LoadClient ex_deps 9 ''bob-client'' ''bob-keywheel'' empty_disk =
     Returns (Inl (Error ''no such file or directory'')) \<and>
   ReadFile ex_deps bob_disk ''bob-client'' = Inr ''{  bob@example.org}'' \<and>
   json_Unmarshal ex_deps ''{  bob@example.org}'' = Inr (json_view (blob_state bob)) \<and>
   ReadFile ex_deps bob_disk ''bob-keywheel'' = Inr (CHR 0x01 # ''alice@example.org:round 12'') \<and>
   Wheel_UnmarshalBinary ex_deps (Wheel_zero ex_deps) (CHR 0x01 # ''alice@example.org:round 12'') =
     Inr ''alice@example.org:round 12'' \<and>
   (\<exists>c'. LoadClient ex_deps 9 ''bob-client'' ''bob-keywheel'' bob_disk = Returns (Inr (9, c')) \<and>
      loadStateLocked ex_deps 9
        ((new_Client ex_deps ''bob-client'' ''bob-keywheel'')\<lparr>wheel := ''alice@example.org:round 12''\<rparr>)
        (json_view (blob_state bob)) = Returns c')"
proof -
  have missing: "ReadFile ex_deps empty_disk ''bob-client'' = Inl (Error ''no such file or directory'')"
    by (simp add: ReadFile_def ex_deps_def empty_disk_def)
  have first: "\<forall>e. ReadFile ex_deps empty_disk ''bob-client'' = Inl e \<longrightarrow>
      LoadClient ex_deps 9 ''bob-client'' ''bob-keywheel'' empty_disk = Returns (Inl e)"
    using LoadClient_returns [of ex_deps empty_disk "''bob-client''" 9 "''bob-keywheel''"]
    by (rule conjunct1)
  with missing
  have 1: "LoadClient ex_deps 9 ''bob-client'' ''bob-keywheel'' empty_disk =
             Returns (Inl (Error ''no such file or directory''))"
    by simp
  from LoadClient_bob_disk obtain c' where
    load: "LoadClient ex_deps 9 ''bob-client'' ''bob-keywheel'' bob_disk = Returns (Inr (9, c'))"
    by (elim exE conjE)
  have "LoadClient ex_deps 9 ''bob-client'' ''bob-keywheel'' bob_disk =
      (case loadStateLocked ex_deps 9
         ((new_Client ex_deps ''bob-client'' ''bob-keywheel'')\<lparr>wheel := ''alice@example.org:round 12''\<rparr>)
         (json_view (blob_state bob)) of
         Panic \<Rightarrow> Panic
       | Returns c' \<Rightarrow> Returns (Inr (9, c')))"
    by (simp add: LoadClient_cases read_bob_disk)
  with load
  have 2: "loadStateLocked ex_deps 9
        ((new_Client ex_deps ''bob-client'' ''bob-keywheel'')\<lparr>wheel := ''alice@example.org:round 12''\<rparr>)
        (json_view (blob_state bob)) = Returns c'"
    by (simp split: outcome.splits)
  show ?thesis
    by (intro conjI exI [of _ c'] missing 1 read_bob_disk load 2)
qed

text \<open>
  The claim as stated, an equivalence between returning a client and the success of the
  four steps, fails on a blob whose friend map has a null entry: the four steps succeed
  and \<open>LoadClient\<close> panics at \<open>friend.Username\<close> in the loop over \<open>st.Friends\<close>, returning
  nothing.
\<close>

theorem LoadClient_panics_on_nil_friend:
  "LoadClient ex_deps 9 ''mallory-client'' ''mallory-keywheel'' null_friend_disk = Panic \<and>
   \<not> ((\<exists>c. LoadClient ex_deps 9 ''mallory-client'' ''mallory-keywheel'' null_friend_disk =
            Returns (Inr c)) \<longleftrightarrow>
       (\<exists>data st kdata w.
          ReadFile ex_deps null_friend_disk ''mallory-client'' = Inr data \<and>
          json_Unmarshal ex_deps data = Inr st \<and>
          ReadFile ex_deps null_friend_disk ''mallory-keywheel'' = Inr kdata \<and>
          Wheel_UnmarshalBinary ex_deps (Wheel_zero ex_deps) kdata = Inr w))"
proof -
  have steps: "\<exists>data st kdata w.
          ReadFile ex_deps null_friend_disk ''mallory-client'' = Inr data \<and>
          json_Unmarshal ex_deps data = Inr st \<and>
          ReadFile ex_deps null_friend_disk ''mallory-keywheel'' = Inr kdata \<and>
          Wheel_UnmarshalBinary ex_deps (Wheel_zero ex_deps) kdata = Inr w"
    by (intro exI conjI) (rule read_null_friend_disk)+
  have none: "\<not> (\<exists>c. LoadClient ex_deps 9 ''mallory-client'' ''mallory-keywheel'' null_friend_disk =
            Returns (Inr c))"
    by (simp add: LoadClient_null_friend_disk)
  from steps none LoadClient_null_friend_disk show ?thesis
    by blast
qed

text \<open>
  C2 (as amended). \<open>LoadClient\<close> does not verify the configurations of a blob. The only
  errors it returns are the errors of the two reads, of \<open>json.Unmarshal\<close> and of the
  keywheel's \<open>UnmarshalBinary\<close>; and a client it returns holds the two configurations
  of the decoded blob as they are, each with the hash that \<open>Hash\<close> computes of it.
\<close>

theorem LoadClient_errors_are_read_or_decode_errors:
  "(LoadClient deps a cp kp d = Returns (Inl e) \<longrightarrow>
      ReadFile deps d cp = Inl e \<or>
      (\<exists>data. ReadFile deps d cp = Inr data \<and> json_Unmarshal deps data = Inl e) \<or>
      ReadFile deps d kp = Inl e \<or>
      (\<exists>kdata. ReadFile deps d kp = Inr kdata \<and>
         Wheel_UnmarshalBinary deps (Wheel_zero deps) kdata = Inl e)) \<and>
   (LoadClient deps a cp kp d = Returns (Inr (r, c')) \<longrightarrow>
      (\<exists>data st. ReadFile deps d cp = Inr data \<and> json_Unmarshal deps data = Inr st \<and>
         addFriendConfig c' = AddFriendConfig st \<and>
         dialingConfig c' = DialingConfig st \<and>
         SignedConfig_Hash deps (AddFriendConfig st) = Returns (addFriendConfigHash c') \<and>
         SignedConfig_Hash deps (DialingConfig st) = Returns (dialingConfigHash c')))"
  by (auto simp add: LoadClient_cases loadStateLocked_def split: sum.splits outcome.splits)

theorem LoadClient_errors_are_read_or_decode_errors_witness:
  "LoadClient ex_deps 9 ''bob-client'' ''bob-keywheel'' empty_disk =
     Returns (Inl (Error ''no such file or directory'')) \<and>
   ReadFile ex_deps empty_disk ''bob-client'' = Inl (Error ''no such file or directory'') \<and>
   (\<exists>c'. LoadClient ex_deps 9 ''bob-client'' ''bob-keywheel'' bob_disk = Returns (Inr (9, c')) \<and>
      addFriendConfig c' = Ptr ''addfriend config'' \<and>
      addFriendConfigHash c' = ''hash of addfriend config'' \<and>
      SignedConfig_Hash ex_deps (addFriendConfig c') = Returns (addFriendConfigHash c'))"
proof -
  have missing: "ReadFile ex_deps empty_disk ''bob-client'' = Inl (Error ''no such file or directory'')"
    by (simp add: ReadFile_def ex_deps_def empty_disk_def)
  then have 1: "LoadClient ex_deps 9 ''bob-client'' ''bob-keywheel'' empty_disk =
                  Returns (Inl (Error ''no such file or directory''))"
    by (simp add: LoadClient_cases)
  from LoadClient_bob_disk obtain c' where
    load: "LoadClient ex_deps 9 ''bob-client'' ''bob-keywheel'' bob_disk = Returns (Inr (9, c'))"
    and cfg: "addFriendConfig c' = Ptr ''addfriend config''"
      "addFriendConfigHash c' = ''hash of addfriend config''"
    by (elim exE conjE)
  have "LoadClient ex_deps 9 ''bob-client'' ''bob-keywheel'' bob_disk = Returns (Inr (9, c')) \<longrightarrow>
      (\<exists>data st. ReadFile ex_deps bob_disk ''bob-client'' = Inr data \<and>
         json_Unmarshal ex_deps data = Inr st \<and>
         addFriendConfig c' = AddFriendConfig st \<and>
         dialingConfig c' = DialingConfig st \<and>
         SignedConfig_Hash ex_deps (AddFriendConfig st) = Returns (addFriendConfigHash c') \<and>
         SignedConfig_Hash ex_deps (DialingConfig st) = Returns (dialingConfigHash c'))"
    using LoadClient_errors_are_read_or_decode_errors
      [of ex_deps 9 "''bob-client''" "''bob-keywheel''" bob_disk _ 9 c']
    by (rule conjunct2)
  with load have hash: "SignedConfig_Hash ex_deps (addFriendConfig c') = Returns (addFriendConfigHash c')"
    by auto
  show ?thesis
    by (intro conjI exI [of _ c'] 1 missing load cfg hash)
qed

text \<open>
  The client \<open>eve\<close> persists to the disk \<open>eve_disk\<close>, and \<open>LoadClient\<close> reads it back.
\<close>

lemma eve_json:
  "json_MarshalIndent ex_deps_signed (json_view (blob_state eve)) [] ''  '' = Inr eve_blob"
  by (simp add: ex_deps_signed_def json_view_def blob_state_def eve_def eve_blob_def
      forged_config_def dialing_config_def Sprintf_d_def decimal.simps)

lemma eve_well_formed: "well_formed ex_deps_signed eve"
  by (simp add: well_formed_def eve_def ex_deps_signed_def)

lemma read_eve_disk:
  "ReadFile ex_deps_signed eve_disk ''eve-client'' = Inr eve_blob"
  "ReadFile ex_deps_signed eve_disk ''eve-keywheel'' = Inr (CHR 0x01 # ''bob@example.org:round 3'')"
  "json_Unmarshal ex_deps_signed eve_blob = Inr (json_view (blob_state eve))"
  "Wheel_UnmarshalBinary ex_deps_signed (Wheel_zero ex_deps_signed)
     (CHR 0x01 # ''bob@example.org:round 3'') = Inr ''bob@example.org:round 3''"
  by (simp_all add: ReadFile_def ex_deps_signed_def eve_disk_def)

lemma LoadClient_eve_disk:
  "\<exists>c'. LoadClient ex_deps_signed 9 ''eve-client'' ''eve-keywheel'' eve_disk = Returns (Inr (9, c')) \<and>
         Client.Username c' = ''eve@example.org'' \<and>
         addFriendConfig c' = Ptr forged_config \<and>
         addFriendConfigHash c' = ex_Hash forged_config"
  by (simp add: LoadClient_cases read_eve_disk loadStateLocked_blob_state [OF eve_well_formed])
    (simp add: eve_def)

lemma eve_persisted: "persistLocked ex_deps_signed eve empty_disk = Returns (None, eve_disk)"
proof -
  have nonil: "NilPtr \<notin> ran (friends eve)"
    by (simp add: eve_def)
  have paths: "ClientPersistPath eve = ''eve-client''" "KeywheelPersistPath eve = ''eve-keywheel''"
    "wheel eve = ''bob@example.org:round 3''"
    by (simp_all add: eve_def)
  have nofault: "\<And>path. write_fault ex_deps_signed path = None"
    by (simp add: ex_deps_signed_def)
  have codec: "\<And>w. Wheel_MarshalBinary ex_deps_signed w = Inr (CHR 0x01 # w)"
    by (simp add: ex_deps_signed_def)
  have "persistClientLocked ex_deps_signed eve empty_disk =
          Returns (None,
            \<lparr>files = [''eve-client'' \<mapsto> \<lparr>contents = eve_blob, perm = mode_0600\<rparr>],
             writes = [(''eve-client'', eve_blob, mode_0600)]\<rparr>)"
    using nonil
    by (simp add: persistClientLocked_unfold paths eve_json WriteFileAtomic_def
        empty_disk_def nofault)
  moreover have "persistKeywheelLocked ex_deps_signed eve
      \<lparr>files = [''eve-client'' \<mapsto> \<lparr>contents = eve_blob, perm = mode_0600\<rparr>],
       writes = [(''eve-client'', eve_blob, mode_0600)]\<rparr> =
      Returns (None, eve_disk)"
    by (simp add: persistKeywheelLocked_def paths codec WriteFileAtomic_def
        eve_disk_def nofault)
  ultimately show ?thesis
    by (simp add: persistLocked_def)
qed

text \<open>
  The add-friend configuration of \<open>eve\<close> fails the verification of section 4.3 of
  the specification: it is not signed by its guardian, whatever the signature scheme,
  and its \<open>PrevConfigHash\<close> is the hash of no head. The dialing configuration verifies.
\<close>

lemma forged_unsigned:
  "\<not> spec_signed verify_sig None forged_config"
  by (simp add: spec_signed_def forged_config_def)

lemma forged_chain:
  "\<not> spec_hash_chain ex_Hash head forged_config"
  by (cases head) (simp_all add: spec_hash_chain_def forged_config_def ex_Hash_def)

lemma forged_fails:
  "spec_Verify verify_sig ex_Hash ''AddFriend'' head forged_config \<noteq> None"
  using forged_chain [of head]
  by (simp add: spec_Verify_def)

lemma dialing_verifies:
  "spec_Verify ex_verify_sig ex_Hash ''Dialing'' None dialing_config = None"
  by (simp add: spec_Verify_def spec_signed_def spec_hash_chain_def dialing_config_def
      ex_verify_sig_def ex_content_def)

text \<open>
  The claim as stated fails on the persisted blob of \<open>eve\<close>. Its add-friend
  configuration cannot be verified, against any stored head and under any signature
  scheme: at a bootstrap the signature rule fails, and the hash-chain rule fails against
  every head. \<open>LoadClient\<close> nevertheless returns a client and no error, and the client
  holds the forged configuration with its hash cached.
\<close>

theorem LoadClient_accepts_forged_config:
  "(\<forall>verify_sig head. spec_Verify verify_sig ex_Hash ''AddFriend'' head forged_config \<noteq> None) \<and>
   (\<forall>verify_sig. spec_Verify verify_sig ex_Hash ''AddFriend'' None forged_config = Some Signature) \<and>
   (\<forall>head. \<not> spec_hash_chain ex_Hash head forged_config) \<and>
   spec_Verify ex_verify_sig ex_Hash ''Dialing'' None dialing_config = None \<and>
   persistLocked ex_deps_signed eve empty_disk = Returns (None, eve_disk) \<and>
   (\<exists>c'. LoadClient ex_deps_signed 9 ''eve-client'' ''eve-keywheel'' eve_disk =
            Returns (Inr (9, c')) \<and>
          addFriendConfig c' = Ptr forged_config \<and>
          addFriendConfigHash c' = ex_Hash forged_config)"
proof -
  have sig: "\<forall>verify_sig. spec_Verify verify_sig ex_Hash ''AddFriend'' None forged_config = Some Signature"
    by (simp add: spec_Verify_def forged_unsigned)
  from LoadClient_eve_disk obtain c' where
    load: "LoadClient ex_deps_signed 9 ''eve-client'' ''eve-keywheel'' eve_disk = Returns (Inr (9, c'))"
    and cfg: "addFriendConfig c' = Ptr forged_config" "addFriendConfigHash c' = ex_Hash forged_config"
    by (elim exE conjE)
  show ?thesis
    by (intro conjI allI exI [of _ c'] forged_fails sig [rule_format] forged_chain
        dialing_verifies eve_persisted load cfg)
qed

subsection \<open>Persisting and loading again\<close>

lemma blob_state_alt:
  "blob_state c =
     \<lparr>persistedState.Username = Client.Username c,
      LongTermPublicKey = Client.LongTermPublicKey c,
      LongTermPrivateKey = Client.LongTermPrivateKey c,
      PKGLoginKey = Client.PKGLoginKey c,
      AddFriendConfig = addFriendConfig c,
      DialingConfig = dialingConfig c,
      IncomingFriendRequests = incomingFriendRequests c,
      OutgoingFriendRequests = outgoingFriendRequests c,
      SentFriendRequests = sentFriendRequests c,
      Friends = map_option persist_Friend \<circ> friends c\<rparr>"
  by (simp add: persist_Friends_blob_state) (simp add: blob_state_def)

lemma json_view_with_backrefs:
  "json_view (blob_state (with_backrefs p c)) = json_view (blob_state c)"
proof -
  have "map_option persist_Friend \<circ> (map_option (friend_with_client p) \<circ> friends c) =
        map_option persist_Friend \<circ> friends c"
    by (simp add: fun_eq_iff option.map_comp persist_Friend_friend_with_client)
  then show ?thesis
    by (simp add: blob_state_alt json_view_def with_backrefs_def
        exported_only_request_with_client)
qed

text \<open>
  What a successful \<open>persistLocked\<close> leaves on the disk: both blobs, each at its
  path with mode \<open>0600\<close>.
\<close>

lemma persistLocked_success:
  assumes "ClientPersistPath c \<noteq> []" "KeywheelPersistPath c \<noteq> []"
    and "NilPtr \<notin> ran (friends c)"
    and "persistLocked deps c d = Returns (None, d')"
  shows "\<exists>data kdata.
           json_MarshalIndent deps (json_view (blob_state c)) [] ''  '' = Inr data \<and>
           Wheel_MarshalBinary deps (wheel c) = Inr kdata \<and>
           files d' = (files d)(ClientPersistPath c \<mapsto> \<lparr>contents = data, perm = mode_0600\<rparr>,
                               KeywheelPersistPath c \<mapsto> \<lparr>contents = kdata, perm = mode_0600\<rparr>)"
  using assms
  by (auto simp add: persistLocked_def persistClientLocked_unfold persistKeywheelLocked_def
      WriteFileAtomic_def Let_def split: sum.splits option.splits if_splits outcome.splits)


text \<open>
  The client that \<open>LoadClient\<close> builds at the address \<open>a\<close> from the files of a
  persisted client \<open>c\<close>.
\<close>

lemma ran_with_backrefs_nil:
  "NilPtr \<in> ran (map_option (friend_with_client p) \<circ> m) \<longleftrightarrow> NilPtr \<in> ran m"
  by (auto simp add: ran_def friend_with_client_nil)

lemma LoadClient_after_persist:
  assumes wf: "well_formed deps c"
    and paths: "ClientPersistPath c \<noteq> []" "KeywheelPersistPath c \<noteq> []"
      "ClientPersistPath c \<noteq> KeywheelPersistPath c"
    and persisted: "persistLocked deps c d = Returns (None, d')"
    and json: "\<forall>data. json_MarshalIndent deps (json_view (blob_state c)) [] ''  '' = Inr data \<longrightarrow>
                 json_Unmarshal deps data = Inr (json_view (blob_state c))"
    and keywheel: "\<forall>data. Wheel_MarshalBinary deps (wheel c) = Inr data \<longrightarrow>
                 Wheel_UnmarshalBinary deps (Wheel_zero deps) data = Inr (wheel c)"
    and reads: "read_fault deps (ClientPersistPath c) = None"
      "read_fault deps (KeywheelPersistPath c) = None"
  shows "LoadClient deps a (ClientPersistPath c) (KeywheelPersistPath c) d' =
           Returns (Inr (a, with_backrefs (Ptr a)
             (c\<lparr>CoordinatorAddress := [], CoordinatorKey := [], Handler := NilPtr\<rparr>)))"
proof -
  from wf have nonil: "NilPtr \<notin> ran (friends c)"
    by (simp add: well_formed_def)
  from persistLocked_success [OF paths(1,2) nonil persisted] obtain data kdata where
    m: "json_MarshalIndent deps (json_view (blob_state c)) [] ''  '' = Inr data"
    and km: "Wheel_MarshalBinary deps (wheel c) = Inr kdata"
    and fs: "files d' = (files d)(ClientPersistPath c \<mapsto> \<lparr>contents = data, perm = mode_0600\<rparr>,
                                KeywheelPersistPath c \<mapsto> \<lparr>contents = kdata, perm = mode_0600\<rparr>)"
    by blast
  from fs paths(3) reads have r1: "ReadFile deps d' (ClientPersistPath c) = Inr data"
    and r2: "ReadFile deps d' (KeywheelPersistPath c) = Inr kdata"
    by (simp_all add: ReadFile_def)
  from json m have u1: "json_Unmarshal deps data = Inr (json_view (blob_state c))"
    by simp
  from keywheel km have u2: "Wheel_UnmarshalBinary deps (Wheel_zero deps) kdata = Inr (wheel c)"
    by simp
  have "(new_Client deps (ClientPersistPath c) (KeywheelPersistPath c))
          \<lparr>wheel := wheel c,
           Client.Username := Client.Username c,
           Client.LongTermPublicKey := Client.LongTermPublicKey c,
           Client.LongTermPrivateKey := Client.LongTermPrivateKey c,
           Client.PKGLoginKey := Client.PKGLoginKey c,
           addFriendConfig := addFriendConfig c,
           addFriendConfigHash := addFriendConfigHash c,
           dialingConfig := dialingConfig c,
           dialingConfigHash := dialingConfigHash c,
           incomingFriendRequests := map (request_with_client (Ptr a)) (incomingFriendRequests c),
           outgoingFriendRequests := map (request_with_client (Ptr a)) (outgoingFriendRequests c),
           sentFriendRequests := map (request_with_client (Ptr a)) (sentFriendRequests c),
           friends := map_option (friend_with_client (Ptr a)) \<circ> friends c\<rparr> =
        with_backrefs (Ptr a) (c\<lparr>CoordinatorAddress := [], CoordinatorKey := [], Handler := NilPtr\<rparr>)"
    by (cases c) (simp add: new_Client_def with_backrefs_def)
  then show ?thesis
    by (simp add: LoadClient_cases r1 r2 u1 u2 loadStateLocked_blob_state [OF wf])
qed

text \<open>
  C1. Let \<open>c\<close> be a client as the package builds it (\<open>well_formed\<close>), with two distinct
  non-empty persist paths, and let persisting it succeed. Assume of the environment that
  \<open>encoding/json\<close> decodes the blob it wrote for \<open>c\<close> back to the state it encoded,
  that the keywheel decodes its own encoding, and that the two reads do not fail. Then
  \<open>LoadClient\<close> on the two files returns a client with the \<open>Username\<close>, both long-term
  keys, the \<open>PKGLoginKey\<close>, both configurations and their hashes and the keywheel of
  \<open>c\<close>; with the three request lists and the friend map of \<open>c\<close>, every back-reference
  now pointing to the new client; and with the two paths it was loaded from. Handler and
  coordinator fields are not restored.
\<close>

theorem LoadClient_persist_roundtrip:
  assumes wf: "well_formed deps c"
    and paths: "ClientPersistPath c \<noteq> []" "KeywheelPersistPath c \<noteq> []"
      "ClientPersistPath c \<noteq> KeywheelPersistPath c"
    and persisted: "persistLocked deps c d = Returns (None, d')"
    and json: "\<forall>data. json_MarshalIndent deps (json_view (blob_state c)) [] ''  '' = Inr data \<longrightarrow>
                 json_Unmarshal deps data = Inr (json_view (blob_state c))"
    and keywheel: "\<forall>data. Wheel_MarshalBinary deps (wheel c) = Inr data \<longrightarrow>
                 Wheel_UnmarshalBinary deps (Wheel_zero deps) data = Inr (wheel c)"
    and reads: "read_fault deps (ClientPersistPath c) = None"
      "read_fault deps (KeywheelPersistPath c) = None"
  shows "\<exists>c'. LoadClient deps a (ClientPersistPath c) (KeywheelPersistPath c) d' =
                 Returns (Inr (a, c')) \<and>
           Client.Username c' = Client.Username c \<and>
           Client.LongTermPublicKey c' = Client.LongTermPublicKey c \<and>
           Client.LongTermPrivateKey c' = Client.LongTermPrivateKey c \<and>
           Client.PKGLoginKey c' = Client.PKGLoginKey c \<and>
           addFriendConfig c' = addFriendConfig c \<and>
           addFriendConfigHash c' = addFriendConfigHash c \<and>
           dialingConfig c' = dialingConfig c \<and>
           dialingConfigHash c' = dialingConfigHash c \<and>
           incomingFriendRequests c' =
             map (request_with_client (Ptr a)) (incomingFriendRequests c) \<and>
           outgoingFriendRequests c' =
             map (request_with_client (Ptr a)) (outgoingFriendRequests c) \<and>
           sentFriendRequests c' =
             map (request_with_client (Ptr a)) (sentFriendRequests c) \<and>
           friends c' = map_option (friend_with_client (Ptr a)) \<circ> friends c \<and>
           wheel c' = wheel c \<and>
           ClientPersistPath c' = ClientPersistPath c \<and>
           KeywheelPersistPath c' = KeywheelPersistPath c \<and>
           CoordinatorAddress c' = [] \<and> CoordinatorKey c' = [] \<and> Handler c' = NilPtr"
  by (rule exI [of _ "with_backrefs (Ptr a)
        (c\<lparr>CoordinatorAddress := [], CoordinatorKey := [], Handler := NilPtr\<rparr>)"])
    (simp add: LoadClient_after_persist [OF assms] with_backrefs_def)

text \<open>
  C8. Under the same assumptions, the state marshalled for the loaded client is the state
  marshalled for \<open>c\<close>, so the second marshal gives the same bytes as the first, and
  persisting the loaded client writes a file equal to the one it was loaded from.
\<close>

theorem persist_load_persist_same_bytes:
  assumes wf: "well_formed deps c"
    and paths: "ClientPersistPath c \<noteq> []" "KeywheelPersistPath c \<noteq> []"
      "ClientPersistPath c \<noteq> KeywheelPersistPath c"
    and persisted: "persistLocked deps c d = Returns (None, d')"
    and json: "\<forall>data. json_MarshalIndent deps (json_view (blob_state c)) [] ''  '' = Inr data \<longrightarrow>
                 json_Unmarshal deps data = Inr (json_view (blob_state c))"
    and keywheel: "\<forall>data. Wheel_MarshalBinary deps (wheel c) = Inr data \<longrightarrow>
                 Wheel_UnmarshalBinary deps (Wheel_zero deps) data = Inr (wheel c)"
    and reads: "read_fault deps (ClientPersistPath c) = None"
      "read_fault deps (KeywheelPersistPath c) = None"
  shows "\<exists>c'. LoadClient deps a (ClientPersistPath c) (KeywheelPersistPath c) d' =
                 Returns (Inr (a, c')) \<and>
           json_MarshalIndent deps (json_view (blob_state c')) [] ''  '' =
             json_MarshalIndent deps (json_view (blob_state c)) [] ''  '' \<and>
           (\<forall>d2. \<exists>d3. persistClientLocked deps c' d2 = Returns (None, d3) \<and>
              files d3 (ClientPersistPath c') = files d' (ClientPersistPath c))"
proof -
  let ?c' = "with_backrefs (Ptr a)
               (c\<lparr>CoordinatorAddress := [], CoordinatorKey := [], Handler := NilPtr\<rparr>)"
  have load: "LoadClient deps a (ClientPersistPath c) (KeywheelPersistPath c) d' =
                Returns (Inr (a, ?c'))"
    by (rule LoadClient_after_persist [OF assms])
  have "blob_state (c\<lparr>CoordinatorAddress := [], CoordinatorKey := [], Handler := NilPtr\<rparr>) =
        blob_state c"
    by (simp add: blob_state_def)
  then have view: "json_view (blob_state ?c') = json_view (blob_state c)"
    by (simp add: json_view_with_backrefs)
  from wf have nonil: "NilPtr \<notin> ran (friends c)"
    by (simp add: well_formed_def)
  then have nonil': "NilPtr \<notin> ran (friends ?c')"
    by (simp add: with_backrefs_def ran_with_backrefs_nil)
  have path': "ClientPersistPath ?c' = ClientPersistPath c"
    by (simp add: with_backrefs_def)
  from persistLocked_success [OF paths(1,2) nonil persisted] obtain data kdata where
    m: "json_MarshalIndent deps (json_view (blob_state c)) [] ''  '' = Inr data"
    and fs: "files d' = (files d)(ClientPersistPath c \<mapsto> \<lparr>contents = data, perm = mode_0600\<rparr>,
                                KeywheelPersistPath c \<mapsto> \<lparr>contents = kdata, perm = mode_0600\<rparr>)"
    by blast
  from persisted paths(1) nonil m have wfault: "write_fault deps (ClientPersistPath c) = None"
    by (auto simp add: persistLocked_def persistClientLocked_unfold WriteFileAtomic_def Let_def
        split: option.splits outcome.splits if_splits)
  have again: "\<forall>d2. \<exists>d3. persistClientLocked deps ?c' d2 = Returns (None, d3) \<and>
                 files d3 (ClientPersistPath ?c') = files d' (ClientPersistPath c)"
  proof
    fix d2
    from paths(1) path' have "ClientPersistPath ?c' \<noteq> []"
      by simp
    from persistClientLocked_unfold [OF this nonil', of deps d2] view m wfault path' fs paths(3)
    show "\<exists>d3. persistClientLocked deps ?c' d2 = Returns (None, d3) \<and>
            files d3 (ClientPersistPath ?c') = files d' (ClientPersistPath c)"
      by (simp add: WriteFileAtomic_def Let_def)
  qed
  from view have same: "json_MarshalIndent deps (json_view (blob_state ?c')) [] ''  '' =
      json_MarshalIndent deps (json_view (blob_state c)) [] ''  ''"
    by simp
  show ?thesis
    by (rule exI [of _ ?c']) (intro conjI load same again)
qed


lemma bob_paths:
  "ClientPersistPath bob = ''bob-client''" "KeywheelPersistPath bob = ''bob-keywheel''"
  "wheel bob = ''alice@example.org:round 12''"
  by (simp_all add: bob_def)

lemma bob_marshal:
  "json_MarshalIndent ex_deps (json_view (blob_state bob)) [] ''  '' = Inr ''{  bob@example.org}''"
  "Wheel_MarshalBinary ex_deps (wheel bob) = Inr (CHR 0x01 # ''alice@example.org:round 12'')"
  by (simp_all add: ex_deps_def json_view_def blob_state_def bob_def)

lemma ex_wheel_codec:
  "Wheel_MarshalBinary ex_deps w = Inr (CHR 0x01 # w)"
  "Wheel_UnmarshalBinary ex_deps z (CHR 0x01 # w) = Inr w"
  by (simp_all add: ex_deps_def)

lemma ex_deps_no_fault: "write_fault ex_deps path = None" "read_fault ex_deps path = None"
  by (simp_all add: ex_deps_def)

lemma bob_persisted: "persistLocked ex_deps bob empty_disk = Returns (None, bob_disk)"
proof -
  have nonil: "NilPtr \<notin> ran (friends bob)"
    by (simp add: bob_def)
  have "persistClientLocked ex_deps bob empty_disk =
          Returns (None,
            \<lparr>files = [''bob-client'' \<mapsto> \<lparr>contents = ''{  bob@example.org}'', perm = mode_0600\<rparr>],
             writes = [(''bob-client'', ''{  bob@example.org}'', mode_0600)]\<rparr>)"
    using nonil
    by (simp add: persistClientLocked_unfold bob_paths bob_marshal WriteFileAtomic_def
        empty_disk_def ex_deps_no_fault)
  moreover have "persistKeywheelLocked ex_deps bob
      \<lparr>files = [''bob-client'' \<mapsto> \<lparr>contents = ''{  bob@example.org}'', perm = mode_0600\<rparr>],
       writes = [(''bob-client'', ''{  bob@example.org}'', mode_0600)]\<rparr> =
      Returns (None, bob_disk)"
    by (simp add: persistKeywheelLocked_def bob_paths ex_wheel_codec WriteFileAtomic_def
        bob_disk_def ex_deps_no_fault)
  ultimately show ?thesis
    by (simp add: persistLocked_def)
qed

lemma bob_round_trip_hyps:
  "\<forall>data. json_MarshalIndent ex_deps (json_view (blob_state bob)) [] ''  '' = Inr data \<longrightarrow>
     json_Unmarshal ex_deps data = Inr (json_view (blob_state bob))"
  "\<forall>data. Wheel_MarshalBinary ex_deps (wheel bob) = Inr data \<longrightarrow>
     Wheel_UnmarshalBinary ex_deps (Wheel_zero ex_deps) data = Inr (wheel bob)"
  "read_fault ex_deps (ClientPersistPath bob) = None"
  "read_fault ex_deps (KeywheelPersistPath bob) = None"
  "ClientPersistPath bob \<noteq> []" "KeywheelPersistPath bob \<noteq> []"
  "ClientPersistPath bob \<noteq> KeywheelPersistPath bob"
  by (simp_all add: bob_marshal bob_paths read_bob_disk ex_deps_no_fault ex_wheel_codec)

theorem LoadClient_persist_roundtrip_witness:
  "well_formed ex_deps bob \<and>
   persistLocked ex_deps bob empty_disk = Returns (None, bob_disk) \<and>
   json_MarshalIndent ex_deps (json_view (blob_state bob)) [] ''  '' = Inr ''{  bob@example.org}'' \<and>
   json_Unmarshal ex_deps ''{  bob@example.org}'' = Inr (json_view (blob_state bob)) \<and>
   Wheel_MarshalBinary ex_deps (wheel bob) = Inr (CHR 0x01 # ''alice@example.org:round 12'') \<and>
   Wheel_UnmarshalBinary ex_deps (Wheel_zero ex_deps) (CHR 0x01 # ''alice@example.org:round 12'') =
     Inr ''alice@example.org:round 12'' \<and>
   (\<exists>c'. LoadClient ex_deps 9 ''bob-client'' ''bob-keywheel'' bob_disk = Returns (Inr (9, c')) \<and>
      Client.Username c' = ''bob@example.org'' \<and>
      Client.LongTermPrivateKey c' = ''bob-private'' \<and>
      dialingConfig c' = Ptr ''dialing config'' \<and>
      dialingConfigHash c' = ''hash of dialing config'' \<and>
      incomingFriendRequests c' = [Ptr \<lparr>exported = ''from carol'', client = Ptr 9\<rparr>] \<and>
      friends c' ''alice@example.org'' =
        Some (Ptr \<lparr>Friend.Username = ''alice@example.org'', LongTermKey = ''alice-public'',
                   extraData = ''met at work'', client = Ptr 9\<rparr>) \<and>
      wheel c' = ''alice@example.org:round 12'' \<and>
      Handler c' = NilPtr)"
proof -
  from LoadClient_persist_roundtrip
    [OF bob_well_formed bob_round_trip_hyps(5,6,7) bob_persisted bob_round_trip_hyps(1,2,3,4),
      of 9]
  obtain c' where
    "LoadClient ex_deps 9 ''bob-client'' ''bob-keywheel'' bob_disk = Returns (Inr (9, c'))"
    "Client.Username c' = ''bob@example.org''"
    "Client.LongTermPrivateKey c' = ''bob-private''"
    "dialingConfig c' = Ptr ''dialing config''"
    "dialingConfigHash c' = ''hash of dialing config''"
    "incomingFriendRequests c' = [Ptr \<lparr>exported = ''from carol'', client = Ptr 9\<rparr>]"
    "friends c' ''alice@example.org'' =
        Some (Ptr \<lparr>Friend.Username = ''alice@example.org'', LongTermKey = ''alice-public'',
                   extraData = ''met at work'', client = Ptr 9\<rparr>)"
    "wheel c' = ''alice@example.org:round 12''"
    "Handler c' = NilPtr"
    by (auto simp add: bob_def)
  with bob_well_formed bob_persisted bob_marshal read_bob_disk(3,4) show ?thesis
    by (intro conjI exI [of _ c']) simp_all
qed

theorem persist_load_persist_same_bytes_witness:
  "well_formed ex_deps bob \<and>
   persistLocked ex_deps bob empty_disk = Returns (None, bob_disk) \<and>
   json_MarshalIndent ex_deps (json_view (blob_state bob)) [] ''  '' = Inr ''{  bob@example.org}'' \<and>
   json_Unmarshal ex_deps ''{  bob@example.org}'' = Inr (json_view (blob_state bob)) \<and>
   (\<exists>c' d3. LoadClient ex_deps 9 ''bob-client'' ''bob-keywheel'' bob_disk = Returns (Inr (9, c')) \<and>
      json_MarshalIndent ex_deps (json_view (blob_state c')) [] ''  '' = Inr ''{  bob@example.org}'' \<and>
      persistClientLocked ex_deps c' empty_disk = Returns (None, d3) \<and>
      files d3 ''bob-client'' = files bob_disk ''bob-client'' \<and>
      files d3 ''bob-client'' = Some \<lparr>contents = ''{  bob@example.org}'', perm = 384\<rparr>)"
proof -
  from persist_load_persist_same_bytes
    [OF bob_well_formed bob_round_trip_hyps(5,6,7) bob_persisted bob_round_trip_hyps(1,2,3,4),
      of 9]
  obtain c' where
    load: "LoadClient ex_deps 9 ''bob-client'' ''bob-keywheel'' bob_disk = Returns (Inr (9, c'))"
    and same: "json_MarshalIndent ex_deps (json_view (blob_state c')) [] ''  '' =
                 Inr ''{  bob@example.org}''"
    and again: "\<forall>d2. \<exists>d3. persistClientLocked ex_deps c' d2 = Returns (None, d3) \<and>
                  files d3 (ClientPersistPath c') = files bob_disk ''bob-client''"
    by (auto simp add: bob_paths bob_marshal)
  from load have path: "ClientPersistPath c' = ''bob-client''"
    by (auto simp add: LoadClient_cases read_bob_disk new_Client_def loadStateLocked_def
        split: outcome.splits)
  from again path obtain d3 where
    d3: "persistClientLocked ex_deps c' empty_disk = Returns (None, d3)"
      "files d3 ''bob-client'' = files bob_disk ''bob-client''"
    by metis
  then have "files d3 ''bob-client'' = Some \<lparr>contents = ''{  bob@example.org}'', perm = 384\<rparr>"
    by (simp add: bob_disk_def mode_0600_def)
  with bob_well_formed bob_persisted bob_marshal(1) read_bob_disk(3) load same d3 show ?thesis
    by (intro conjI exI [of _ c'] exI [of _ d3]) simp_all
qed

end
